theory Spec2Isabelle
  imports Main "HOL-Library.Char_ord" "HOL-Library.List_Lexorder" "HOL-Library.Multiset"
begin

section \<open>The rule registry and report pipeline of advisor/rules.go\<close>

text \<open>
  This theory embeds the functions of \<^verbatim>\<open>advisor/rules.go\<close> that filter, score and
  render the verdicts of a SQL review: \<^verbatim>\<open>IsIgnoreRule\<close>, \<^verbatim>\<open>InBlackList\<close>,
  \<^verbatim>\<open>FormatSuggest\<close>, \<^verbatim>\<open>formatJSON\<close> and the catalog built by
  \<^verbatim>\<open>InitHeuristicRules\<close>.

  Conventions of the embedding:
  \<^item> a Go \<^verbatim>\<open>string\<close> is a byte sequence, here \<open>string\<close> (a list of 8-bit characters);
    text outside ASCII is written as its UTF-8 bytes;
  \<^item> a Go \<^verbatim>\<open>int\<close> is a 64-bit two's complement integer, here an \<open>int\<close> on which
    every arithmetic result is passed through \<open>wrap64\<close>;
  \<^item> a Go \<^verbatim>\<open>map[string]Rule\<close> is an association list with distinct keys; the order
    of the list stands for the order in which a \<^verbatim>\<open>range\<close> loop visits the map, which
    Go leaves unspecified, so a property that holds "for every iteration order" is a
    property that holds for every permutation of the list;
  \<^item> calls of \<^verbatim>\<open>common.Log\<close> only write to the log and are left out;
  \<^item> functions of other packages (the fingerprint, the JSON encoder, the regular
    expression engine, ...) are parameters of the functions that call them.
\<close>

subsection \<open>Strings: package strings and fmt\<close>

text \<open>\<^verbatim>\<open>strings.HasPrefix(s, prefix)\<close>.\<close>

definition HasPrefix :: "string \<Rightarrow> string \<Rightarrow> bool" where
  "HasPrefix s pre = (length pre \<le> length s \<and> take (length pre) s = pre)"

text \<open>
  \<^verbatim>\<open>strings.TrimLeft\<close>, \<^verbatim>\<open>strings.TrimRight\<close> and \<^verbatim>\<open>strings.Trim\<close> remove the leading,
  the trailing, or both runs of characters that occur in the cutset. The cutsets of
  this file are the single ASCII characters \<^verbatim>\<open>L\<close> and \<^verbatim>\<open>*\<close>, for which the byte-wise
  reading below agrees with Go's reading by code points.
\<close>

definition TrimLeft :: "string \<Rightarrow> string \<Rightarrow> string" where
  "TrimLeft s cutset = dropWhile (\<lambda>c. c \<in> set cutset) s"

definition TrimRight :: "string \<Rightarrow> string \<Rightarrow> string" where
  "TrimRight s cutset = rev (dropWhile (\<lambda>c. c \<in> set cutset) (rev s))"

definition Trim :: "string \<Rightarrow> string \<Rightarrow> string" where
  "Trim s cutset = TrimRight (TrimLeft s cutset) cutset"

text \<open>\<^verbatim>\<open>strings.Join(elems, sep)\<close>.\<close>

fun Join :: "string list \<Rightarrow> string \<Rightarrow> string" where
  "Join [] sep = []"
| "Join [x] sep = x"
| "Join (x # y # ys) sep = x @ sep @ Join (y # ys) sep"

text \<open>
  \<^verbatim>\<open>fmt.Sprintln\<close> puts a space between its operands and a newline at the end;
  the two arities used in the source are written out.
\<close>

definition Sprintln1 :: "string \<Rightarrow> string" where
  "Sprintln1 a = a @ [CHR 0x0A]"

definition Sprintln2 :: "string \<Rightarrow> string \<Rightarrow> string" where
  "Sprintln2 a b = a @ '' '' @ b @ [CHR 0x0A]"

subsection \<open>64-bit integers and package strconv\<close>

definition wrap64 :: "int \<Rightarrow> int" where
  "wrap64 x = (x + 9223372036854775808) mod 18446744073709551616 - 9223372036854775808"

definition is_digit :: "char \<Rightarrow> bool" where
  "is_digit c = (CHR ''0'' \<le> c \<and> c \<le> CHR ''9'')"

definition digit_val :: "char \<Rightarrow> nat" where
  "digit_val c = of_char c - of_char CHR ''0''"

datatype NumError = ErrSyntax | ErrRange

definition maxUint64 :: nat where
  "maxUint64 = 18446744073709551615"

text \<open>
  \<^verbatim>\<open>strconv.ParseUint(s, 10, 0)\<close>: the digits are read from the left; a byte that is
  not a decimal digit is a syntax error with value 0, and a value that leaves the
  unsigned 64-bit range is a range error with the largest value, reported as soon
  as it is met.
\<close>

fun ParseUint_loop :: "nat \<Rightarrow> string \<Rightarrow> nat \<times> NumError option" where
  "ParseUint_loop n [] = (n, None)"
| "ParseUint_loop n (c # cs) =
     (if \<not> is_digit c then (0, Some ErrSyntax)
      else if maxUint64 div 10 + 1 \<le> n then (maxUint64, Some ErrRange)
      else if maxUint64 < n * 10 + digit_val c then (maxUint64, Some ErrRange)
      else ParseUint_loop (n * 10 + digit_val c) cs)"

definition ParseUint :: "string \<Rightarrow> nat \<times> NumError option" where
  "ParseUint s = (if s = [] then (0, Some ErrSyntax) else ParseUint_loop 0 s)"

text \<open>
  \<^verbatim>\<open>strconv.ParseInt(s, 10, 0)\<close> on a 64-bit platform: an optional sign, then
  \<^verbatim>\<open>ParseUint\<close>; a syntax error gives 0, a value outside the signed range gives the
  nearest bound together with a range error.
\<close>

definition ParseInt :: "string \<Rightarrow> int \<times> NumError option" where
  "ParseInt s =
     (case s of
        [] \<Rightarrow> (0, Some ErrSyntax)
      | c # cs \<Rightarrow>
          (let neg = (c = CHR ''-'');
               s' = (if c = CHR ''+'' \<or> c = CHR ''-'' then cs else s)
           in case ParseUint s' of
                (un, Some ErrSyntax) \<Rightarrow> (0, Some ErrSyntax)
              | (un, _) \<Rightarrow>
                  if \<not> neg \<and> 9223372036854775808 \<le> un
                    then (9223372036854775807, Some ErrRange)
                  else if neg \<and> 9223372036854775808 < un
                    then (- 9223372036854775808, Some ErrRange)
                  else (if neg then - int un else int un, None)))"

text \<open>
  \<^verbatim>\<open>strconv.Atoi(s)\<close> returns the value and the error of \<^verbatim>\<open>ParseInt(s, 10, 0)\<close>
  (its fast path for short strings computes the same pair).
\<close>

definition Atoi :: "string \<Rightarrow> int \<times> NumError option" where
  "Atoi s = ParseInt s"

text \<open>The verb \<^verbatim>\<open>%d\<close> of \<^verbatim>\<open>fmt.Sprintf\<close>: an integer in decimal.\<close>

fun Itoa_nat :: "nat \<Rightarrow> string" where
  "Itoa_nat n =
     (if n < 10 then [''0123456789'' ! n]
      else Itoa_nat (n div 10) @ [''0123456789'' ! (n mod 10)])"

definition Itoa :: "int \<Rightarrow> string" where
  "Itoa i = (if i < 0 then CHR ''-'' # Itoa_nat (nat (- i)) else Itoa_nat (nat i))"

subsection \<open>Rules, verdict sets and the configuration\<close>

text \<open>
  The struct \<^verbatim>\<open>Rule\<close>. The field \<^verbatim>\<open>Func\<close> holds a method of \<^verbatim>\<open>Query4Audit\<close>; the
  embedding keeps the name of the method, and \<open>None\<close> for a nil function value.
\<close>

record Rule =
  Item :: string
  Severity :: string
  Summary :: string
  Content :: string
  Case :: string
  Position :: int
  Func :: "string option"

text \<open>The zero value of \<^verbatim>\<open>Rule\<close>, which reading a missing key of a map returns.\<close>

definition zero_Rule :: Rule where
  "zero_Rule = \<lparr> Item = [], Severity = [], Summary = [], Content = [], Case = [],
     Position = 0, Func = None \<rparr>"

type_synonym rule_map = "(string \<times> Rule) list"

text \<open>\<^verbatim>\<open>m[k]\<close>, \<^verbatim>\<open>delete(m, k)\<close> and \<^verbatim>\<open>m[k] = v\<close> on a map.\<close>

definition lookup :: "rule_map \<Rightarrow> string \<Rightarrow> Rule" where
  "lookup m k = (case map_of m k of Some r \<Rightarrow> r | None \<Rightarrow> zero_Rule)"

definition map_delete :: "string \<Rightarrow> rule_map \<Rightarrow> rule_map" where
  "map_delete k m = filter (\<lambda>(k', r). k' \<noteq> k) m"

definition map_store :: "string \<Rightarrow> Rule \<Rightarrow> rule_map \<Rightarrow> rule_map" where
  "map_store k v m =
     (if k \<in> fst ` set m then map (\<lambda>(k', r). if k' = k then (k', v) else (k', r)) m
      else m @ [(k, v)])"

text \<open>
  The fields of \<^verbatim>\<open>common.Config\<close> that this file reads. The package \<^verbatim>\<open>common\<close> is
  a package of its own, so the configuration is a parameter.
\<close>

record Config =
  IgnoreRules :: "string list"
  ReportType :: string
  ExplainSQLReportType :: string
  MaxTextColsCount :: int
  MaxVarcharLength :: int
  ColumnNotAllowType :: "string list"
  IdxPrefix :: string
  UkPrefix :: string
  AllowEngines :: "string list"
  AllowCharsets :: "string list"
  AllowCollates :: "string list"

subsection \<open>The catalog: InitHeuristicRules\<close>

text \<open>
  \<^verbatim>\<open>InitHeuristicRules\<close> assigns a map literal of 133 entries to the variable
  \<^verbatim>\<open>HeuristicRules\<close>. Each entry is a constant below, named after its key, and the
  literal is the list \<open>InitHeuristicRules\<close> in the order of the source. No entry
  sets \<^verbatim>\<open>Position\<close>, which is therefore 0.
\<close>

definition rule_OK :: "Rule" where
  "rule_OK = \<lparr>
     Item = ''OK'',
     Severity = ''L0'',
     Summary = ''OK'',
     Content = ''OK'',
     Case = ''OK'',
     Position = 0,
     Func = Some ''RuleOK'' \<rparr>"

definition rule_ALI_001 :: "Rule" where
  "rule_ALI_001 = \<lparr>
     Item = ''ALI.001'',
     Severity = ''L0'',
     Summary = ''It is recommended to use the AS keyword to explicitly declare an alias'',
     Content = ''In column or table aliases (such as '' @ [CHR 0x22] @ ''tbl AS alias'' @ [CHR 0x22] @ ''), explicit use of the AS keyword is easier to understand than implicit aliases (such as '' @ [CHR 0x22] @ ''tbl alias'' @ [CHR 0x22] @ ''). '',
     Case = ''select name from tbl t1 where id <1000'',
     Position = 0,
     Func = Some ''RuleImplicitAlias'' \<rparr>"

definition rule_ALI_002 :: "Rule" where
  "rule_ALI_002 = \<lparr>
     Item = ''ALI.002'',
     Severity = ''L8'',
     Summary = ''It is not recommended to set an alias for the column wildcard character'' @ [CHR 0x27] @ ''*'' @ [CHR 0x27],
     Content = ''Example: '' @ [CHR 0x22] @ ''SELECT tbl.* col1, col2'' @ [CHR 0x22] @ '' The above SQL sets aliases for the column wildcards. Such SQL may have logic errors. You might be looking for col1, but instead of it, the last column of tbl is renamed. '',
     Case = ''select tbl.* as c1,c2,c3 from tbl where id <1000'',
     Position = 0,
     Func = Some ''RuleStarAlias'' \<rparr>"

definition rule_ALI_003 :: "Rule" where
  "rule_ALI_003 = \<lparr>
     Item = ''ALI.003'',
     Severity = ''L1'',
     Summary = ''The alias should not be the same as the name of the table or column'',
     Content = ''The alias of the table or column is the same as its real name. Such an alias will make the query more difficult to distinguish. '',
     Case = ''select name from tbl as tbl where id <1000'',
     Position = 0,
     Func = Some ''RuleSameAlias'' \<rparr>"

definition rule_ALT_001 :: "Rule" where
  "rule_ALT_001 = \<lparr>
     Item = ''ALT.001'',
     Severity = ''L4'',
     Summary = ''Modifying the default character set of the table will not change the character set of each field of the table'',
     Content = ''Many beginners will mistake ALTER TABLE tbl_name [DEFAULT] CHARACTER SET'' @ [CHR 0x27] @ ''UTF8'' @ [CHR 0x27] @ '' to modify the character set of all fields, but in fact it will only affect the subsequent newly added fields and will not change the characters of the existing fields in the table set. If you want to modify the character set of all fields in the entire table, it is recommended to use ALTER TABLE tbl_name CONVERT TO CHARACTER SET charset_name;'',
     Case = ''ALTER TABLE tbl_name CONVERT TO CHARACTER SET charset_name;'',
     Position = 0,
     Func = Some ''RuleAlterCharset'' \<rparr>"

definition rule_ALT_002 :: "Rule" where
  "rule_ALT_002 = \<lparr>
     Item = ''ALT.002'',
     Severity = ''L2'',
     Summary = ''Multiple ALTER request suggestions for the same table are combined into one'',
     Content = ''Each table structure change will have an impact on online services, even if it is possible to adjust through online tools, please try to reduce the number of operations by merging ALTER requests. '',
     Case = ''ALTER TABLE tbl ADD COLUMN col int, ADD INDEX idx_col ('' @ [CHR 0x60] @ ''col'' @ [CHR 0x60] @ '');'',
     Position = 0,
     Func = Some ''RuleOK'' \<rparr>"

definition rule_ALT_003 :: "Rule" where
  "rule_ALT_003 = \<lparr>
     Item = ''ALT.003'',
     Severity = ''L0'',
     Summary = ''Delete is listed as a high-risk operation. Please check whether the business logic is still dependent before the operation.'',
     Content = ''If the business logic dependency is not completely eliminated, after the column is deleted, the data may not be written or the deleted column data cannot be queried, which may cause the program to be abnormal. In this case, even if the backup data is rolled back, the data requested by the user will be lost. '',
     Case = ''ALTER TABLE tbl DROP COLUMN col;'',
     Position = 0,
     Func = Some ''RuleAlterDropColumn'' \<rparr>"

definition rule_ALT_004 :: "Rule" where
  "rule_ALT_004 = \<lparr>
     Item = ''ALT.004'',
     Severity = ''L0'',
     Summary = ''Deleting primary keys and foreign keys is a high-risk operation, please confirm the impact with DBA before operation'',
     Content = ''Primary key and foreign key are two important constraints in relational databases. Deleting existing constraints will break the existing business logic. Before operating, please confirm the impact with the DBA and think twice. '',
     Case = ''ALTER TABLE tbl DROP PRIMARY KEY;'',
     Position = 0,
     Func = Some ''RuleAlterDropKey'' \<rparr>"

definition rule_ARG_001 :: "Rule" where
  "rule_ARG_001 = \<lparr>
     Item = ''ARG.001'',
     Severity = ''L4'',
     Summary = ''It is not recommended to use the preceding wildcard search'',
     Content = ''For example, '' @ [CHR 0x22] @ ''%foo'' @ [CHR 0x22] @ '', if the query parameter has a wildcard in the preceding term, the existing index cannot be used. '',
     Case = ''select c1,c2,c3 from tbl where name like'' @ [CHR 0x27] @ ''%foo'' @ [CHR 0x27],
     Position = 0,
     Func = Some ''RulePrefixLike'' \<rparr>"

definition rule_ARG_002 :: "Rule" where
  "rule_ARG_002 = \<lparr>
     Item = ''ARG.002'',
     Severity = ''L1'',
     Summary = ''LIKE query without wildcards'',
     Content = ''LIKE query that does not contain wildcards may have a logic error, because it is logically the same as an equivalent query. '',
     Case = ''select c1,c2,c3 from tbl where name like'' @ [CHR 0x27] @ ''foo'' @ [CHR 0x27],
     Position = 0,
     Func = Some ''RuleEqualLike'' \<rparr>"

definition rule_ARG_003 :: "Rule" where
  "rule_ARG_003 = \<lparr>
     Item = ''ARG.003'',
     Severity = ''L4'',
     Summary = ''The parameter comparison contains implicit conversion, and the index cannot be used'',
     Content = ''Implicit type conversion has the risk of not hitting the index. In the case of high concurrency and large data volume, the consequences of not hitting the index are very serious.'',
     Case = ''SELECT * FROM sakila.film WHERE length >= '' @ [CHR 0x27] @ ''60'' @ [CHR 0x27] @ '';'',
     Position = 0,
     Func = Some ''RuleOK'' \<rparr>"

definition rule_ARG_004 :: "Rule" where
  "rule_ARG_004 = \<lparr>
     Item = ''ARG.004'',
     Severity = ''L4'',
     Summary = ''IN (NULL)/NOT IN (NULL) is never true'',
     Content = ''The correct way is col IN ('' @ [CHR 0x27] @ ''val1'' @ [CHR 0x27] @ '','' @ [CHR 0x27] @ ''val2'' @ [CHR 0x27] @ '','' @ [CHR 0x27] @ ''val3'' @ [CHR 0x27] @ '') OR col IS NULL'',
     Case = ''SELECT * FROM tb WHERE col IN (NULL);'',
     Position = 0,
     Func = Some ''RuleIn'' \<rparr>"

definition rule_ARG_005 :: "Rule" where
  "rule_ARG_005 = \<lparr>
     Item = ''ARG.005'',
     Severity = ''L1'',
     Summary = ''IN should be used with caution, too many elements will cause a full table scan'',
     Content = ''Such as: select id from t where num in(1,2,3) For continuous values, don'' @ [CHR 0x27] @ ''t use IN if you can use BETWEEN: select id from t where num between 1 and 3. And when the IN value is too much, MySQL may also enter a full table scan, causing a sharp drop in performance. '',
     Case = ''select id from t where num in(1,2,3)'',
     Position = 0,
     Func = Some ''RuleIn'' \<rparr>"

definition rule_ARG_006 :: "Rule" where
  "rule_ARG_006 = \<lparr>
     Item = ''ARG.006'',
     Severity = ''L1'',
     Summary = ''Try to avoid the NULL value judgment of the field in the WHERE clause'',
     Content = ''Using IS NULL or IS NOT NULL may cause the engine to give up using the index and perform a full table scan, such as: select id from t where num is null; you can set a default value of 0 on num to ensure that the num column in the table is not NULL Value, and then query like this: select id from t where num=0;'',
     Case = ''select id from t where num is null'',
     Position = 0,
     Func = Some ''RuleIsNullIsNotNull'' \<rparr>"

definition rule_ARG_007 :: "Rule" where
  "rule_ARG_007 = \<lparr>
     Item = ''ARG.007'',
     Severity = ''L3'',
     Summary = ''Avoid using pattern matching'',
     Content = ''Performance is the biggest disadvantage of using pattern matching operators. Another problem with using LIKE or regular expressions for pattern matching is that it may return unexpected results. The best solution is to use a special search engine technology to replace SQL, such as Apache Lucene. Another alternative is to save the results to reduce repeated search overhead. If you must use SQL, please consider using third-party extensions like FULLTEXT indexes in MySQL. But more broadly, you don'' @ [CHR 0x27] @ ''t necessarily have to use SQL to solve all problems. '',
     Case = ''select c_id,c2,c3 from tbl where c2 like'' @ [CHR 0x27] @ ''test%'' @ [CHR 0x27],
     Position = 0,
     Func = Some ''RulePatternMatchingUsage'' \<rparr>"

definition rule_ARG_008 :: "Rule" where
  "rule_ARG_008 = \<lparr>
     Item = ''ARG.008'',
     Severity = ''L1'',
     Summary = ''Please try to use IN predicate when OR query index column'',
     Content = ''IN-list predicate can be used for index search, and the optimizer can sort the IN-list to match the sorting sequence of the index, so as to obtain a more effective search. Please note that the IN-list must only contain constants, or keep constant values '' @ [CHR 0xE2, CHR 0x80, CHR 0x8B, CHR 0xE2, CHR 0x80, CHR 0x8B] @ ''during the execution of the query block, such as external references. '',
     Case = ''SELECT c1,c2,c3 FROM tbl WHERE c1 = 14 OR c1 = 17'',
     Position = 0,
     Func = Some ''RuleORUsage'' \<rparr>"

definition rule_ARG_009 :: "Rule" where
  "rule_ARG_009 = \<lparr>
     Item = ''ARG.009'',
     Severity = ''L1'',
     Summary = ''The string in quotation marks contains spaces at the beginning or end'',
     Content = ''If there are spaces before and after the VARCHAR column, it may cause logic problems. For example, in MySQL 5.5,'' @ [CHR 0x27] @ ''a'' @ [CHR 0x27] @ '' and'' @ [CHR 0x27] @ ''a'' @ [CHR 0x27] @ '' may be considered the same value in the query. '',
     Case = ''SELECT'' @ [CHR 0x27] @ ''abc'' @ [CHR 0x27],
     Position = 0,
     Func = Some ''RuleSpaceWithQuote'' \<rparr>"

definition rule_ARG_010 :: "Rule" where
  "rule_ARG_010 = \<lparr>
     Item = ''ARG.010'',
     Severity = ''L1'',
     Summary = ''Do not use hints, such as: sql_no_cache, force index, ignore key, straight join, etc.'',
     Content = ''hint is used to force SQL to execute according to a certain execution plan, but as the amount of data changes, we cannot guarantee that our original prediction is correct. '',
     Case = ''SELECT * FROM t1 USE INDEX (i1) ORDER BY a;'',
     Position = 0,
     Func = Some ''RuleHint'' \<rparr>"

definition rule_ARG_011 :: "Rule" where
  "rule_ARG_011 = \<lparr>
     Item = ''ARG.011'',
     Severity = ''L3'',
     Summary = ''Don'' @ [CHR 0x27] @ ''t use negative query, such as: NOT IN/NOT LIKE'',
     Content = ''Please try not to use negative queries, which will cause a full table scan and have a greater impact on query performance. '',
     Case = ''select id from t where num not in(1,2,3);'',
     Position = 0,
     Func = Some ''RuleNot'' \<rparr>"

definition rule_ARG_012 :: "Rule" where
  "rule_ARG_012 = \<lparr>
     Item = ''ARG.012'',
     Severity = ''L2'',
     Summary = ''Too much data for one-time INSERT/REPLACE'',
     Content = ''A single INSERT/REPLACE statement has poor performance for inserting large amounts of data in batches, and may even cause synchronization delays from the database. In order to improve performance and reduce the impact of batch write data on the synchronization delay of the slave database, it is recommended to insert in batches. .'',
     Case = ''INSERT INTO tb (a) VALUES (1), (2)'',
     Position = 0,
     Func = Some ''RuleInsertValues'' \<rparr>"

definition rule_ARG_013 :: "Rule" where
  "rule_ARG_013 = \<lparr>
     Item = ''ARG.013'',
     Severity = ''L0'',
     Summary = ''Chinese full-width quotation marks are used in DDL statements'',
     Content = ''Chinese full-width quotation marks '' @ [CHR 0x22, CHR 0x22] @ '' or '' @ [CHR 0xE2, CHR 0x80, CHR 0x98, CHR 0xE2, CHR 0x80, CHR 0x99] @ '' are used in the DDL statement. This may be a writing error. Please confirm whether it meets expectations.'',
     Case = ''CREATE TABLE tb (a varchar(10) default'' @ [CHR 0x27, CHR 0xE2, CHR 0x80, CHR 0x9C, CHR 0xE2, CHR 0x80, CHR 0x9D, CHR 0x27],
     Position = 0,
     Func = Some ''RuleFullWidthQuote'' \<rparr>"

definition rule_ARG_014 :: "Rule" where
  "rule_ARG_014 = \<lparr>
     Item = ''ARG.014'',
     Severity = ''L4'',
     Summary = ''There are column names in the IN condition, which may lead to the expansion of the data matching range'',
     Content = ''Such as: delete from t where id in(1, 2, id) may cause the entire table data to be deleted by mistake. Please carefully check the correctness of the IN conditions. '',
     Case = ''select id from t where id in(1, 2, id)'',
     Position = 0,
     Func = Some ''RuleIn'' \<rparr>"

definition rule_CLA_001 :: "Rule" where
  "rule_CLA_001 = \<lparr>
     Item = ''CLA.001'',
     Severity = ''L4'',
     Summary = ''The outermost SELECT does not specify the WHERE condition'',
     Content = ''The SELECT statement has no WHERE clause, and may check more rows than expected (full table scan). If precision is not required for SELECT COUNT(*) type requests, it is recommended to use SHOW TABLE STATUS or EXPLAIN instead. '',
     Case = ''select id from tbl'',
     Position = 0,
     Func = Some ''RuleNoWhere'' \<rparr>"

definition rule_CLA_002 :: "Rule" where
  "rule_CLA_002 = \<lparr>
     Item = ''CLA.002'',
     Severity = ''L3'',
     Summary = ''ORDER BY RAND() is not recommended'',
     Content = ''ORDER BY RAND() is a very inefficient method of retrieving random rows from the result set, because it sorts the entire result and discards most of its data. '',
     Case = ''select name from tbl where id <1000 order by rand(number)'',
     Position = 0,
     Func = Some ''RuleOrderByRand'' \<rparr>"

definition rule_CLA_003 :: "Rule" where
  "rule_CLA_003 = \<lparr>
     Item = ''CLA.003'',
     Severity = ''L2'',
     Summary = ''It is not recommended to use LIMIT query with OFFSET'',
     Content = ''The complexity of using LIMIT and OFFSET to page the result set is O(n^2), and it will cause performance problems as the data increases. Using '' @ [CHR 0x22] @ ''bookmark'' @ [CHR 0x22] @ '' scanning method to achieve higher efficiency of paging. '',
     Case = ''select c1,c2 from tbl where name=xx order by number limit 1 offset 20'',
     Position = 0,
     Func = Some ''RuleOffsetLimit'' \<rparr>"

definition rule_CLA_004 :: "Rule" where
  "rule_CLA_004 = \<lparr>
     Item = ''CLA.004'',
     Severity = ''L2'',
     Summary = ''It is not recommended to group by constants'',
     Content = ''GROUP BY 1 means group by the first column. If you use numbers in the GROUP BY clause instead of expressions or column names, it may cause problems when the order of the query columns is changed. '',
     Case = ''select col1,col2 from tbl group by 1'',
     Position = 0,
     Func = Some ''RuleGroupByConst'' \<rparr>"

definition rule_CLA_005 :: "Rule" where
  "rule_CLA_005 = \<lparr>
     Item = ''CLA.005'',
     Severity = ''L2'',
     Summary = ''ORDER BY constant column has no meaning'',
     Content = ''There may be an error in SQL logic; at most it is just a useless operation and will not change the query result. '',
     Case = ''select id from test where id=1 order by id'',
     Position = 0,
     Func = Some ''RuleOrderByConst'' \<rparr>"

definition rule_CLA_006 :: "Rule" where
  "rule_CLA_006 = \<lparr>
     Item = ''CLA.006'',
     Severity = ''L4'',
     Summary = ''Group BY or ORDER BY in different tables'',
     Content = ''This will force the use of temporary tables and filesort, which may cause huge performance hazards, and may consume a lot of memory and temporary space on the disk. '',
     Case = ''select tb1.col, tb2.col from tb1, tb2 where id=1 group by tb1.col, tb2.col'',
     Position = 0,
     Func = Some ''RuleDiffGroupByOrderBy'' \<rparr>"

definition rule_CLA_007 :: "Rule" where
  "rule_CLA_007 = \<lparr>
     Item = ''CLA.007'',
     Severity = ''L2'',
     Summary = ''ORDER BY statement cannot use indexes for multiple different conditions and sorts in different directions'',
     Content = ''All expressions in the ORDER BY clause must be sorted in a uniform ASC or DESC direction in order to take advantage of the index. '',
     Case = ''select c1,c2,c3 from t1 where c1='' @ [CHR 0x27] @ ''foo'' @ [CHR 0x27] @ '' order by c2 desc, c3 asc'',
     Position = 0,
     Func = Some ''RuleMixOrderBy'' \<rparr>"

definition rule_CLA_008 :: "Rule" where
  "rule_CLA_008 = \<lparr>
     Item = ''CLA.008'',
     Severity = ''L2'',
     Summary = ''Please add ORDER BY condition for GROUP BY display'',
     Content = ''By default, MySQL will sort'' @ [CHR 0x27] @ ''GROUP BY col1, col2, ...'' @ [CHR 0x27] @ '' requests in the following order:'' @ [CHR 0x27] @ ''ORDER BY col1, col2, ...'' @ [CHR 0x27] @ ''. If the GROUP BY statement does not specify the ORDER BY condition, it will cause unnecessary sorting. If sorting is not required, it is recommended to add'' @ [CHR 0x27] @ ''ORDER BY NULL'' @ [CHR 0x27] @ ''. '',
     Case = ''select c1,c2,c3 from t1 where c1='' @ [CHR 0x27] @ ''foo'' @ [CHR 0x27] @ '' group by c2'',
     Position = 0,
     Func = Some ''RuleExplicitOrderBy'' \<rparr>"

definition rule_CLA_009 :: "Rule" where
  "rule_CLA_009 = \<lparr>
     Item = ''CLA.009'',
     Severity = ''L2'',
     Summary = ''The condition of ORDER BY is an expression'',
     Content = ''When the ORDER BY condition is an expression or a function, a temporary table will be used. If the WHERE or WHERE condition is not specified, the performance will be poor if the result set returned is large. '',
     Case = ''select description from film where title ='' @ [CHR 0x27] @ ''ACADEMY DINOSAUR'' @ [CHR 0x27] @ '' order by length-language_id;'',
     Position = 0,
     Func = Some ''RuleOrderByExpr'' \<rparr>"

definition rule_CLA_010 :: "Rule" where
  "rule_CLA_010 = \<lparr>
     Item = ''CLA.010'',
     Severity = ''L2'',
     Summary = ''The condition of GROUP BY is an expression'',
     Content = ''When the GROUP BY condition is an expression or a function, a temporary table will be used. If the WHERE or WHERE condition is not specified and the result set returned is large, the performance will be poor. '',
     Case = ''select description from film where title ='' @ [CHR 0x27] @ ''ACADEMY DINOSAUR'' @ [CHR 0x27] @ '' GROUP BY length-language_id;'',
     Position = 0,
     Func = Some ''RuleGroupByExpr'' \<rparr>"

definition rule_CLA_011 :: "Rule" where
  "rule_CLA_011 = \<lparr>
     Item = ''CLA.011'',
     Severity = ''L1'',
     Summary = ''It is recommended to add a comment to the table'',
     Content = ''Adding comments to the table can make the meaning of the table more clear, which will bring great convenience to future maintenance. '',
     Case = ''CREATE TABLE '' @ [CHR 0x60] @ ''test1'' @ [CHR 0x60] @ '' ('' @ [CHR 0x60] @ ''ID'' @ [CHR 0x60] @ '' bigint(20) NOT NULL AUTO_INCREMENT,'' @ [CHR 0x60] @ ''c1'' @ [CHR 0x60] @ '' varchar(128) DEFAULT NULL,PRIMARY KEY ('' @ [CHR 0x60] @ ''ID'' @ [CHR 0x60] @ '')) ENGINE=InnoDB DEFAULT CHARSET=utf8'',
     Position = 0,
     Func = Some ''RuleTblCommentCheck'' \<rparr>"

definition rule_CLA_012 :: "Rule" where
  "rule_CLA_012 = \<lparr>
     Item = ''CLA.012'',
     Severity = ''L2'',
     Summary = ''Decompose complex bound-footed queries into several simple queries'',
     Content = ''SQL is a very expressive language, you can accomplish many things in a single SQL query or a single statement. But this does not mean that you must use only one line of code, or that it is a good idea to use one line of code to get every task. A common consequence of obtaining all results with one query is to get a Cartesian product. This happens when there are no conditions between the two tables in the query to restrict their relationship. There is no corresponding restriction and directly use two tables for join query, you will get a combination of each row in the first table and each row in the second table. Each such combination will become a row in the result set, and eventually you will get a result set with a large number of rows. It is important to consider that these queries are difficult to write, difficult to modify, and difficult to debug. The increasing number of database query requests should be expected. Managers want more complex reports and add more fields to the user interface. If your design is complex and a single query, it will be time-consuming and laborious to expand them. For you or the project, time spent on these things is not worth it. Break the complex spaghetti query into a few simple queries. When you split a complex SQL query, the result may be many similar queries, which may differ only in data types. Writing all these queries is very tedious, so it is best to have a program that automatically generates these codes. SQL code generation is a good application. Although SQL supports solving complex problems with one line of code, don'' @ [CHR 0x27] @ ''t do unrealistic things. '',
     Case = ''This is a very long and very long SQL, the case is omitted.'',
     Position = 0,
     Func = Some ''RuleSpaghettiQueryAlert'' \<rparr>"

definition rule_CLA_013 :: "Rule" where
  "rule_CLA_013 = \<lparr>
     Item = ''CLA.013'',
     Severity = ''L3'',
     Summary = ''The HAVING clause is not recommended'',
     Content = ''Rewrite the HAVING clause of the query as the query condition in the WHERE, and the index can be used during query processing. '',
     Case = ''SELECT s.c_id,count(s.c_id) FROM s where c = test GROUP BY s.c_id HAVING s.c_id <> '' @ [CHR 0x27] @ ''1660'' @ [CHR 0x27] @ '' AND s.c_id <> '' @ [CHR 0x27] @ ''2'' @ [CHR 0x27] @ '' order by s.c_id'',
     Position = 0,
     Func = Some ''RuleHavingClause'' \<rparr>"

definition rule_CLA_014 :: "Rule" where
  "rule_CLA_014 = \<lparr>
     Item = ''CLA.014'',
     Severity = ''L2'',
     Summary = ''It is recommended to use TRUNCATE instead of DELETE when deleting the entire table'',
     Content = ''It is recommended to use TRUNCATE instead of DELETE when deleting the entire table'',
     Case = ''delete from tbl'',
     Position = 0,
     Func = Some ''RuleNoWhere'' \<rparr>"

definition rule_CLA_015 :: "Rule" where
  "rule_CLA_015 = \<lparr>
     Item = ''CLA.015'',
     Severity = ''L4'',
     Summary = ''UPDATE does not specify the WHERE condition'',
     Content = ''UPDATE does not specify the WHERE condition is generally fatal, please think twice'',
     Case = ''update tbl set col=1'',
     Position = 0,
     Func = Some ''RuleNoWhere'' \<rparr>"

definition rule_CLA_016 :: "Rule" where
  "rule_CLA_016 = \<lparr>
     Item = ''CLA.016'',
     Severity = ''L2'',
     Summary = ''Don'' @ [CHR 0x27] @ ''t UPDATE the primary key'',
     Content = ''The primary key is the unique identifier of the record in the data table. It is not recommended to update the primary key column frequently. This will affect the metadata statistics and affect the normal query. '',
     Case = ''update tbl set col=1'',
     Position = 0,
     Func = Some ''RuleOK'' \<rparr>"

definition rule_COL_001 :: "Rule" where
  "rule_COL_001 = \<lparr>
     Item = ''COL.001'',
     Severity = ''L1'',
     Summary = ''It is not recommended to use SELECT * type query'',
     Content = ''When the table structure changes, using the * wildcard to select all columns will cause the meaning and behavior of the query to change, which may cause the query to return more data. '',
     Case = ''select * from tbl where id=1'',
     Position = 0,
     Func = Some ''RuleSelectStar'' \<rparr>"

definition rule_COL_002 :: "Rule" where
  "rule_COL_002 = \<lparr>
     Item = ''COL.002'',
     Severity = ''L2'',
     Summary = ''INSERT/REPLACE does not specify the column name'',
     Content = ''When the table structure changes, if the INSERT or REPLACE request does not explicitly specify the column name, the result of the request will be different from what you expected; it is recommended to use '' @ [CHR 0x22] @ ''INSERT INTO tbl(col1, col2)VALUES ...'' @ [CHR 0x22] @ '' instead. '',
     Case = ''insert into tbl values(1,'' @ [CHR 0x27] @ ''name'' @ [CHR 0x27] @ '')'',
     Position = 0,
     Func = Some ''RuleInsertColDef'' \<rparr>"

definition rule_COL_003 :: "Rule" where
  "rule_COL_003 = \<lparr>
     Item = ''COL.003'',
     Severity = ''L2'',
     Summary = ''It is recommended to modify the auto-increment ID to an unsigned type'',
     Content = ''It is recommended to modify the auto-increment ID to an unsigned type'',
     Case = ''create table test('' @ [CHR 0x60] @ ''id'' @ [CHR 0x60] @ '' int(11) NOT NULL AUTO_INCREMENT)'',
     Position = 0,
     Func = Some ''RuleAutoIncUnsigned'' \<rparr>"

definition rule_COL_004 :: "Rule" where
  "rule_COL_004 = \<lparr>
     Item = ''COL.004'',
     Severity = ''L1'',
     Summary = ''Please add a default value for the column'',
     Content = ''Please add a default value for the column, if it is an ALTER operation, please don'' @ [CHR 0x27] @ ''t forget to write the default value of the original field. The field has no default value, and the table structure cannot be changed online when the table is large. '',
     Case = ''CREATE TABLE tbl (col int) ENGINE=InnoDB;'',
     Position = 0,
     Func = Some ''RuleAddDefaultValue'' \<rparr>"

definition rule_COL_005 :: "Rule" where
  "rule_COL_005 = \<lparr>
     Item = ''COL.005'',
     Severity = ''L1'',
     Summary = ''The column is not commented'',
     Content = ''It is recommended to add a comment to each column in the table to clarify the meaning and function of each column in the table. '',
     Case = ''CREATE TABLE tbl (col int) ENGINE=InnoDB;'',
     Position = 0,
     Func = Some ''RuleColCommentCheck'' \<rparr>"

definition rule_COL_006 :: "Rule" where
  "rule_COL_006 = \<lparr>
     Item = ''COL.006'',
     Severity = ''L3'',
     Summary = ''The table contains too many columns'',
     Content = ''The table contains too many columns'',
     Case = ''CREATE TABLE tbl (cols ....);'',
     Position = 0,
     Func = Some ''RuleTooManyFields'' \<rparr>"

definition rule_COL_007 :: "Config \<Rightarrow> Rule" where
  "rule_COL_007 cfg = \<lparr>
     Item = ''COL.007'',
     Severity = ''L3'',
     Summary = ''The table contains too many text/blob columns'',
     Content = ''The table contains more than '' @ Itoa (MaxTextColsCount cfg) @ '' text/blob columns'',
     Case = ''CREATE TABLE tbl (cols ....);'',
     Position = 0,
     Func = Some ''RuleTooManyFields'' \<rparr>"

definition rule_COL_008 :: "Rule" where
  "rule_COL_008 = \<lparr>
     Item = ''COL.008'',
     Severity = ''L1'',
     Summary = ''You can use VARCHAR instead of CHAR, VARBINARY instead of BINARY'',
     Content = ''The storage space is small for the first variable length field, which can save storage space. Secondly, for queries, the search efficiency in a relatively small field is obviously higher. '',
     Case = ''create table t1(id int,name char(20),last_time date)'',
     Position = 0,
     Func = Some ''RuleVarcharVSChar'' \<rparr>"

definition rule_COL_009 :: "Rule" where
  "rule_COL_009 = \<lparr>
     Item = ''COL.009'',
     Severity = ''L2'',
     Summary = ''It is recommended to use precise data types'',
     Content = ''Actually, any design that uses FLOAT, REAL or DOUBLE PRECISION data types may be an anti-pattern. The value range of floating point numbers used by most applications does not need to reach the maximum/minimum range defined by the IEEE 754 standard. When calculating the total, the accumulated impact of inexact floating-point numbers is serious. Use the NUMERIC or DECIMAL type in SQL to replace FLOAT and similar data types for fixed-precision decimal storage. These data types store data exactly according to the precision you specified when you defined this column. Do not use floating-point numbers as much as possible. '',
     Case = ''CREATE TABLE tab2 (p_id BIGINT UNSIGNED NOT NULL,a_id BIGINT UNSIGNED NOT NULL,hours float not null,PRIMARY KEY (p_id, a_id))'',
     Position = 0,
     Func = Some ''RuleImpreciseDataType'' \<rparr>"

definition rule_COL_010 :: "Rule" where
  "rule_COL_010 = \<lparr>
     Item = ''COL.010'',
     Severity = ''L2'',
     Summary = ''It is not recommended to use ENUM/BIT/SET data type'',
     Content = ''ENUM defines the type of value in the column. When using a string to represent the value in ENUM, the data actually stored in the column is the ordinal number of these values '' @ [CHR 0xE2, CHR 0x80, CHR 0x8B, CHR 0xE2, CHR 0x80, CHR 0x8B] @ ''at the time of definition. Therefore, the data in this column is byte-aligned. When you perform a sorting query, the results are sorted according to the actual stored ordinal value, not the alphabetical order of the string value. This may not be what you want. There is no syntax for adding or deleting a value from an ENUM or check constraint; you can only redefine this column with a new set. If you plan to discard an option, you may be annoyed by historical data. As a strategy, changing metadata'' @ [CHR 0xE2, CHR 0x80, CHR 0x94] @ ''that is, changing the definition of tables and columns'' @ [CHR 0xE2, CHR 0x80, CHR 0x94] @ ''should be uncommon, and pay attention to testing and quality assurance. There is a better solution to constrain the optional values '' @ [CHR 0xE2, CHR 0x80, CHR 0x8B, CHR 0xE2, CHR 0x80, CHR 0x8B] @ ''in a column: create a check table, each row contains a candidate value that is allowed in the column; then declare a foreign key constraint on the old table that references the new table. '',
     Case = ''create table tab1(status ENUM('' @ [CHR 0x27] @ ''new'' @ [CHR 0x27] @ '','' @ [CHR 0x27] @ ''in progress'' @ [CHR 0x27] @ '','' @ [CHR 0x27] @ ''fixed'' @ [CHR 0x27] @ ''))'',
     Position = 0,
     Func = Some ''RuleValuesInDefinition'' \<rparr>"

definition rule_COL_011 :: "Rule" where
  "rule_COL_011 = \<lparr>
     Item = ''COL.011'',
     Severity = ''L0'',
     Summary = ''NULL is used when a unique constraint is required, and NOT NULL is used only when the column cannot have missing values'',
     Content = ''NULL and 0 are different, 10 multiplied by NULL or NULL. NULL is not the same as an empty string. The result of combining a string with NULL in standard SQL is still NULL. NULL and FALSE are also different. If NULL is involved in the three Boolean operations of AND, OR, and NOT, many people are confused by the result. When you declare a column as NOT NULL, it means that every value in the column must exist and be meaningful. Use NULL to represent a null value that does not exist in any type. When you declare a column as NOT NULL, it means that every value in the column must exist and be meaningful. '',
     Case = ''select c1,c2,c3 from tbl where c4 is null or c4 <> 1'',
     Position = 0,
     Func = Some ''RuleNullUsage'' \<rparr>"

definition rule_COL_012 :: "Rule" where
  "rule_COL_012 = \<lparr>
     Item = ''COL.012'',
     Severity = ''L5'',
     Summary = ''TEXT, BLOB and JSON type fields are not recommended to be set to NOT NULL'',
     Content = ''TEXT, BLOB, and JSON type fields cannot specify non-NULL default values. If the NOT NULL restriction is added, writing data without specifying a value for the field may cause writing failure. '',
     Case = ''CREATE TABLE '' @ [CHR 0x60] @ ''tb'' @ [CHR 0x60] @ ''('' @ [CHR 0x60] @ ''c'' @ [CHR 0x60] @ '' longblob NOT NULL);'',
     Position = 0,
     Func = Some ''RuleBLOBNotNull'' \<rparr>"

definition rule_COL_013 :: "Rule" where
  "rule_COL_013 = \<lparr>
     Item = ''COL.013'',
     Severity = ''L4'',
     Summary = ''TIMESTAMP type default value check exception'',
     Content = ''TIMESTAMP type recommends setting the default value, and it is not recommended to use 0 or 0000-00-00 00:00:00 as the default value. Consider using 1970-08-02 01:01:01'',
     Case = ''CREATE TABLE tbl( '' @ [CHR 0x60] @ ''id'' @ [CHR 0x60] @ '' bigint not null, '' @ [CHR 0x60] @ ''create_time'' @ [CHR 0x60] @ '' timestamp);'',
     Position = 0,
     Func = Some ''RuleTimestampDefault'' \<rparr>"

definition rule_COL_014 :: "Rule" where
  "rule_COL_014 = \<lparr>
     Item = ''COL.014'',
     Severity = ''L5'',
     Summary = ''A character set is specified for the column'',
     Content = ''It is recommended that the column and the table use the same character set, do not specify the character set of the column separately. '',
     Case = ''CREATE TABLE '' @ [CHR 0x60] @ ''tb2'' @ [CHR 0x60] @ '' ('' @ [CHR 0x60] @ ''id'' @ [CHR 0x60] @ '' int(11) DEFAULT NULL, '' @ [CHR 0x60] @ ''col'' @ [CHR 0x60] @ '' char(10) CHARACTER SET utf8 DEFAULT NULL)'',
     Position = 0,
     Func = Some ''RuleColumnWithCharset'' \<rparr>"

definition rule_COL_015 :: "Rule" where
  "rule_COL_015 = \<lparr>
     Item = ''COL.015'',
     Severity = ''L4'',
     Summary = ''TEXT, BLOB and JSON type fields cannot be specified with non-NULL default values'',
     Content = ''TEXT, BLOB and JSON type fields in the MySQL database cannot be specified with non-NULL default values. The maximum length of TEXT is 2^16-1 characters, the maximum length of MEDIUMTEXT is 2^32-1 characters, and the maximum length of LONGTEXT is 2^64-1 characters. '',
     Case = ''CREATE TABLE '' @ [CHR 0x60] @ ''tbl'' @ [CHR 0x60] @ '' ('' @ [CHR 0x60] @ ''c'' @ [CHR 0x60] @ '' blob DEFAULT NULL);'',
     Position = 0,
     Func = Some ''RuleBlobDefaultValue'' \<rparr>"

definition rule_COL_016 :: "Rule" where
  "rule_COL_016 = \<lparr>
     Item = ''COL.016'',
     Severity = ''L1'',
     Summary = ''Integer definition is recommended to use INT(10) or BIGINT(20)'',
     Content = ''INT(M) In the integer data type, M represents the maximum display width. In INT(M), the value of M has nothing to do with how much storage space INT(M) occupies. INT(3), INT(4), INT(8) all occupy 4 bytes of storage space on the disk. In higher versions of MySQL, it is no longer recommended to set the integer display width. '',
     Case = ''CREATE TABLE tab (a INT(1));'',
     Position = 0,
     Func = Some ''RuleIntPrecision'' \<rparr>"

definition rule_COL_017 :: "Config \<Rightarrow> Rule" where
  "rule_COL_017 cfg = \<lparr>
     Item = ''COL.017'',
     Severity = ''L2'',
     Summary = ''VARCHAR definition length is too long'',
     Content = ''varchar is a variable-length string, storage space is not allocated in advance, and the length should not exceed '' @ Itoa (MaxVarcharLength cfg) @ ''. If the storage length is too long, MySQL will define the field type as text, and create a separate table with the primary key to correspond , To avoid affecting the index efficiency of other fields.'',
     Case = ''CREATE TABLE tab (a varchar(3500));'',
     Position = 0,
     Func = Some ''RuleVarcharLength'' \<rparr>"

definition rule_COL_018 :: "Config \<Rightarrow> Rule" where
  "rule_COL_018 cfg = \<lparr>
     Item = ''COL.018'',
     Severity = ''L9'',
     Summary = ''A field type that is not recommended is used in the table building statement'',
     Content = ''The following field types are not recommended:'' @ Join (ColumnNotAllowType cfg) ('', ''),
     Case = ''CREATE TABLE tab (a BOOLEAN);'',
     Position = 0,
     Func = Some ''RuleColumnNotAllowType'' \<rparr>"

definition rule_COL_019 :: "Rule" where
  "rule_COL_019 = \<lparr>
     Item = ''COL.019'',
     Severity = ''L1'',
     Summary = ''It is not recommended to use time data types with accuracy below the second level'',
     Content = ''The storage space consumption brought by the use of high-precision time data types is relatively large; MySQL can only support time data types accurate to microseconds above 5.6.4, and version compatibility issues need to be considered when using it.'',
     Case = ''CREATE TABLE t1 (t TIME(3), dt DATETIME(6));'',
     Position = 0,
     Func = Some ''RuleTimePrecision'' \<rparr>"

definition rule_DIS_001 :: "Rule" where
  "rule_DIS_001 = \<lparr>
     Item = ''DIS.001'',
     Severity = ''L1'',
     Summary = ''Eliminate unnecessary DISTINCT conditions'',
     Content = ''Too many DISTINCT conditions are a symptom of complex footwear queries. Consider breaking down complex queries into many simple queries and reducing the number of DISTINCT conditions. If the primary key column is part of the result set of the column, the DISTINCT condition may have no effect. '',
     Case = ''SELECT DISTINCT c.c_id,count(DISTINCT c.c_name),count(DISTINCT c.c_e),count(DISTINCT c.c_n),count(DISTINCT c.c_me),c.c_d FROM (select distinct id, name from B) as e WHERE e.country_id = c.country_id'',
     Position = 0,
     Func = Some ''RuleDistinctUsage'' \<rparr>"

definition rule_DIS_002 :: "Rule" where
  "rule_DIS_002 = \<lparr>
     Item = ''DIS.002'',
     Severity = ''L3'',
     Summary = ''COUNT(DISTINCT) when there are multiple columns, the result may be different from what you expected'',
     Content = ''COUNT(DISTINCT col) Calculate the number of unique rows in this column except NULL. Note that COUNT(DISTINCT col, col2) If one of the columns is all NULL, then even if the other column has a different value, it will return 0. '',
     Case = ''SELECT COUNT(DISTINCT col, col2) FROM tbl;'',
     Position = 0,
     Func = Some ''RuleCountDistinctMultiCol'' \<rparr>"

definition rule_DIS_003 :: "Rule" where
  "rule_DIS_003 = \<lparr>
     Item = ''DIS.003'',
     Severity = ''L3'',
     Summary = ''DISTINCT * has no meaning for tables with primary keys'',
     Content = ''When the table already has a primary key, the output result of DISTINCT for all columns is the same as the result of no DISTINCT operation, please don'' @ [CHR 0x27] @ ''t superfluous. '',
     Case = ''SELECT DISTINCT * FROM film;'',
     Position = 0,
     Func = Some ''RuleDistinctStar'' \<rparr>"

definition rule_FUN_001 :: "Rule" where
  "rule_FUN_001 = \<lparr>
     Item = ''FUN.001'',
     Severity = ''L2'',
     Summary = ''Avoid using functions or other operators in WHERE conditions'',
     Content = ''Although the use of functions in SQL can simplify many complex queries, queries that use functions cannot use the indexes that have been established in the table. The query will be a full table scan and the performance will be poor. It is usually recommended to write the column name on the left side of the comparison operator, and put the query filter condition on the right side of the comparison operator. It is also not recommended to write extra parentheses on both sides of the query and comparison conditions, which will cause greater confusion in reading. '',
     Case = ''select id from t where substring(name,1,3)='' @ [CHR 0x27] @ ''abc'' @ [CHR 0x27],
     Position = 0,
     Func = Some ''RuleCompareWithFunction'' \<rparr>"

definition rule_FUN_002 :: "Rule" where
  "rule_FUN_002 = \<lparr>
     Item = ''FUN.002'',
     Severity = ''L1'',
     Summary = ''When WHERE condition or non-MyISAM engine is specified, COUNT(*) operation performance is not good'',
     Content = ''The function of COUNT(*) is to count the number of table rows, and the function of COUNT(COL) is to count the number of non-NULL rows in the specified column. MyISAM table is specially optimized for COUNT(*) to count the number of rows in the whole table, which is usually very fast. But for non-MyISAM tables or certain WHERE conditions are specified, the COUNT(*) operation needs to scan a large number of rows to obtain accurate results, and the performance is therefore not good. Sometimes certain business scenarios do not require a completely accurate COUNT value, and an approximate value can be used instead. The number of rows estimated by the optimizer from EXPLAIN is a good approximation. Executing EXPLAIN does not need to actually execute the query, so the cost is very low. '',
     Case = ''SELECT c3, COUNT(*) AS accounts FROM tab where c2 <10000 GROUP BY c3 ORDER BY num'',
     Position = 0,
     Func = Some ''RuleCountStar'' \<rparr>"

definition rule_FUN_003 :: "Rule" where
  "rule_FUN_003 = \<lparr>
     Item = ''FUN.003'',
     Severity = ''L3'',
     Summary = ''Used string concatenation merged into nullable columns'',
     Content = ''In some query requests, you need to force a column or expression to return a non-NULL value, so that the query logic becomes simpler, but you don'' @ [CHR 0x27] @ ''t want to save this value. You can use the COALESCE() function to construct a concatenated expression, so that even a null column does not make the entire expression NULL. '',
     Case = ''select c1 || coalesce('' @ [CHR 0x27] @ '' '' @ [CHR 0x27] @ ''|| c2 ||'' @ [CHR 0x27, CHR 0x27] @ '', '' @ [CHR 0x27, CHR 0x27] @ '') || c3 as c from tbl'',
     Position = 0,
     Func = Some ''RuleStringConcatenation'' \<rparr>"

definition rule_FUN_004 :: "Rule" where
  "rule_FUN_004 = \<lparr>
     Item = ''FUN.004'',
     Severity = ''L4'',
     Summary = ''It is not recommended to use the SYSDATE() function'',
     Content = ''SYSDATE() function may cause inconsistent master and slave data, please use NOW() function instead of SYSDATE(). '',
     Case = ''SELECT SYSDATE();'',
     Position = 0,
     Func = Some ''RuleSysdate'' \<rparr>"

definition rule_FUN_005 :: "Rule" where
  "rule_FUN_005 = \<lparr>
     Item = ''FUN.005'',
     Severity = ''L1'',
     Summary = ''It is not recommended to use COUNT(col) or COUNT(constant)'',
     Content = ''Don'' @ [CHR 0x27] @ ''t use COUNT(col) or COUNT(constant) instead of COUNT(*), COUNT(*) is the standard method of counting the number of rows defined by SQL92. It has nothing to do with data, and has nothing to do with NULL and non-NULL. '',
     Case = ''SELECT COUNT(1) FROM tbl;'',
     Position = 0,
     Func = Some ''RuleCountConst'' \<rparr>"

definition rule_FUN_006 :: "Rule" where
  "rule_FUN_006 = \<lparr>
     Item = ''FUN.006'',
     Severity = ''L1'',
     Summary = ''Pay attention to NPE issues when using SUM(COL)'',
     Content = ''When the values '' @ [CHR 0xE2, CHR 0x80, CHR 0x8B, CHR 0xE2, CHR 0x80, CHR 0x8B] @ ''of a certain column are all NULL, the return result of COUNT(COL) is 0, but the return result of SUM(COL) is NULL, so you need to pay attention to the NPE problem when using SUM(). The following methods can be used to avoid the NPE problem of SUM: SELECT IF(ISNULL(SUM(COL)), 0, SUM(COL)) FROM tbl'',
     Case = ''SELECT SUM(COL) FROM tbl;'',
     Position = 0,
     Func = Some ''RuleSumNPE'' \<rparr>"

definition rule_FUN_007 :: "Rule" where
  "rule_FUN_007 = \<lparr>
     Item = ''FUN.007'',
     Severity = ''L1'',
     Summary = ''The use of triggers is not recommended'',
     Content = ''There is no feedback and log for the execution of the trigger, which hides the actual execution steps. When there is a problem with the database, the specific execution of the trigger cannot be analyzed through the slow log, and the problem is not easy to find. In MySQL, triggers cannot be temporarily closed or opened. In scenarios such as data migration or data recovery, you need to drop triggers temporarily, which may affect the production environment. '',
     Case = ''CREATE TRIGGER t1 AFTER INSERT ON work FOR EACH ROW INSERT INTO time VALUES(NOW());'',
     Position = 0,
     Func = Some ''RuleForbiddenTrigger'' \<rparr>"

definition rule_FUN_008 :: "Rule" where
  "rule_FUN_008 = \<lparr>
     Item = ''FUN.008'',
     Severity = ''L1'',
     Summary = ''It is not recommended to use stored procedures'',
     Content = ''The stored procedure has no version control, and it is difficult to achieve business unawareness with the upgrade of the stored procedure in conjunction with the business. Storage procedures also have problems in expansion and transplantation. '',
     Case = ''CREATE PROCEDURE simpleproc (OUT param1 INT);'',
     Position = 0,
     Func = Some ''RuleForbiddenProcedure'' \<rparr>"

definition rule_FUN_009 :: "Rule" where
  "rule_FUN_009 = \<lparr>
     Item = ''FUN.009'',
     Severity = ''L1'',
     Summary = ''It is not recommended to use custom functions'',
     Content = ''It is not recommended to use custom functions'',
     Case = ''CREATE FUNCTION hello (s CHAR(20));'',
     Position = 0,
     Func = Some ''RuleForbiddenFunction'' \<rparr>"

definition rule_GRP_001 :: "Rule" where
  "rule_GRP_001 = \<lparr>
     Item = ''GRP.001'',
     Severity = ''L2'',
     Summary = ''It is not recommended to use GROUP BY for equivalent query columns'',
     Content = ''The columns in GROUP BY used the equivalent query in the previous WHERE condition, so it doesn'' @ [CHR 0x27] @ ''t make much sense to perform GROUP BY on such columns. '',
     Case = ''select film_id, title from film where release_year='' @ [CHR 0x27] @ ''2006'' @ [CHR 0x27] @ '' group by release_year'',
     Position = 0,
     Func = Some ''RuleOK'' \<rparr>"

definition rule_JOI_001 :: "Rule" where
  "rule_JOI_001 = \<lparr>
     Item = ''JOI.001'',
     Severity = ''L2'',
     Summary = ''JOIN statement mixes comma and ANSI mode'',
     Content = ''Mixed comma and ANSI JOIN when joining tables are not easy for humans to understand, and different versions of MySQL have different table join behaviors and priorities. Errors may be introduced when the MySQL version changes. '',
     Case = ''select c1,c2,c3 from t1,t2 join t3 on t1.c1=t2.c1,t1.c3=t3,c1 where id>1000'',
     Position = 0,
     Func = Some ''RuleCommaAnsiJoin'' \<rparr>"

definition rule_JOI_002 :: "Rule" where
  "rule_JOI_002 = \<lparr>
     Item = ''JOI.002'',
     Severity = ''L4'',
     Summary = ''The same table is connected twice'',
     Content = ''The same table appears at least twice in the FROM clause, which can be simplified to a single access to the table. '',
     Case = ''select tb1.col from (tb1, tb2) join tb2 on tb1.id=tb.id where tb1.id=1'',
     Position = 0,
     Func = Some ''RuleDupJoin'' \<rparr>"

definition rule_JOI_003 :: "Rule" where
  "rule_JOI_003 = \<lparr>
     Item = ''JOI.003'',
     Severity = ''L4'',
     Summary = ''OUTER JOIN is invalid'',
     Content = ''Due to the wrong WHERE condition, no data is returned from the external table of OUTER JOIN, which will implicitly convert the query to INNER JOIN. Such as: select c from L left join R using(c) where L.a=5 and R.b=10. This kind of SQL logic may have errors or programmers may misunderstand how OUTER JOIN works, because LEFT/RIGHT JOIN is the abbreviation of LEFT/RIGHT OUTER JOIN. '',
     Case = ''select c1,c2,c3 from t1 left outer join t2 using(c1) where t1.c2=2 and t2.c3=4'',
     Position = 0,
     Func = Some ''RuleOK'' \<rparr>"

definition rule_JOI_004 :: "Rule" where
  "rule_JOI_004 = \<lparr>
     Item = ''JOI.004'',
     Severity = ''L4'',
     Summary = ''It is not recommended to use exclusive JOIN'',
     Content = ''LEFT OUTER JOIN statement with WHERE clause only in the right table is NULL, it may be the wrong column in the WHERE clause, such as: '' @ [CHR 0x22] @ ''... FROM l LEFT OUTER JOIN r ON ll = rr WHERE rz IS NULL'' @ [CHR 0x22] @ '', the correct logic for this query may be WHERE rr IS NULL. '',
     Case = ''select c1,c2,c3 from t1 left outer join t2 on t1.c1=t2.c1 where t2.c2 is null'',
     Position = 0,
     Func = Some ''RuleOK'' \<rparr>"

definition rule_JOI_005 :: "Rule" where
  "rule_JOI_005 = \<lparr>
     Item = ''JOI.005'',
     Severity = ''L2'',
     Summary = ''Reduce the number of JOINs'',
     Content = ''Too many JOINs are a symptom of a complex bound query. Consider breaking down complex queries into many simple queries and reducing the number of JOINs. '',
     Case = ''select bp1.p_id, b1.d_d as l, b1.b_id from b1 join bp1 on (b1.b_id = bp1.b_id) left outer join (b1 as b2 join bp2 on (b2.b_id = bp2.b_id) ) on (bp1.p_id = bp2.p_id) join bp21 on (b1.b_id = bp1.b_id) join bp31 on (b1.b_id = bp1.b_id) join bp41 on (b1.b_id = bp1.b_id) where b2. b_id = 0'',
     Position = 0,
     Func = Some ''RuleReduceNumberOfJoin'' \<rparr>"

definition rule_JOI_006 :: "Rule" where
  "rule_JOI_006 = \<lparr>
     Item = ''JOI.006'',
     Severity = ''L4'',
     Summary = ''Rewriting a nested query to JOIN usually leads to more efficient execution and more effective optimization'',
     Content = ''Generally speaking, non-nested subqueries are always used for associative subqueries, at most from a table in the FROM clause. These subqueries are used for ANY, ALL and EXISTS predicates. If it can be determined based on the query semantics that the subquery returns at most one row, then an unrelated subquery or subquery from multiple tables in the FROM clause will be flattened. '',
     Case = ''SELECT s,p,d FROM tbl WHERE p.p_id = (SELECT s.p_id FROM tbl WHERE s.c_id = 100996 AND s.q = 1 )'',
     Position = 0,
     Func = Some ''RuleNestedSubQueries'' \<rparr>"

definition rule_JOI_007 :: "Rule" where
  "rule_JOI_007 = \<lparr>
     Item = ''JOI.007'',
     Severity = ''L4'',
     Summary = ''It is not recommended to delete or update associated tables'',
     Content = ''When you need to delete or update multiple tables at the same time, it is recommended to use simple statements. One SQL only deletes or updates one table. Try not to combine the operations of multiple tables in the same statement. '',
     Case = ''UPDATE users u LEFT JOIN hobby h ON u.id = h.uid SET u.name ='' @ [CHR 0x27] @ ''pianoboy'' @ [CHR 0x27] @ '' WHERE h.hobby ='' @ [CHR 0x27] @ ''piano'' @ [CHR 0x27] @ '';'',
     Position = 0,
     Func = Some ''RuleMultiDeleteUpdate'' \<rparr>"

definition rule_JOI_008 :: "Rule" where
  "rule_JOI_008 = \<lparr>
     Item = ''JOI.008'',
     Severity = ''L4'',
     Summary = ''Don'' @ [CHR 0x27] @ ''t use cross-database JOIN queries'',
     Content = ''Generally speaking, a cross-database JOIN query means that the query statement spans two different subsystems, which may mean that the system coupling is too high or the library table structure design is unreasonable. '',
     Case = ''SELECT s,p,d FROM tbl WHERE p.p_id = (SELECT s.p_id FROM tbl WHERE s.c_id = 100996 AND s.q = 1 )'',
     Position = 0,
     Func = Some ''RuleMultiDBJoin'' \<rparr>"

definition rule_KEY_001 :: "Rule" where
  "rule_KEY_001 = \<lparr>
     Item = ''KEY.001'',
     Severity = ''L2'',
     Summary = ''It is recommended to use an auto-increment column as the primary key. If you use a joint auto-increment primary key, please use the auto-increment key as the first column'',
     Content = ''It is recommended to use an auto-increment column as the primary key. If you use a joint auto-increment primary key, please use the auto-increment key as the first column.'',
     Case = ''create table test('' @ [CHR 0x60] @ ''id'' @ [CHR 0x60] @ '' int(11) NOT NULL PRIMARY KEY ('' @ [CHR 0x60] @ ''id'' @ [CHR 0x60] @ ''))'',
     Position = 0,
     Func = Some ''RulePKNotInt'' \<rparr>"

definition rule_KEY_002 :: "Rule" where
  "rule_KEY_002 = \<lparr>
     Item = ''KEY.002'',
     Severity = ''L4'',
     Summary = ''There is no primary key or unique key, and the table structure cannot be changed online'',
     Content = ''No primary key or unique key, table structure cannot be changed online'',
     Case = ''create table test(col varchar(5000))'',
     Position = 0,
     Func = Some ''RuleNoOSCKey'' \<rparr>"

definition rule_KEY_003 :: "Rule" where
  "rule_KEY_003 = \<lparr>
     Item = ''KEY.003'',
     Severity = ''L4'',
     Summary = ''Avoid recursive relationships such as foreign keys'',
     Content = ''Data with recursive relationships is very common, and data is often organized like a tree or hierarchically. However, creating a foreign key constraint to enforce the relationship between two columns in the same table can lead to clumsy queries. Each level of the tree corresponds to another connection. You will need to issue a recursive query to get all descendants or all ancestors of the node. The solution is to construct an additional closure table. It records the relationship between all nodes in the tree, not just those that have a direct parent-child relationship. You can also compare different levels of data design: closure tables, path enumerations, nested sets. Then choose one according to the needs of the application. '',
     Case = ''CREATE TABLE tab2 (p_id BIGINT UNSIGNED NOT NULL,a_id BIGINT UNSIGNED NOT NULL,PRIMARY KEY (p_id, a_id),FOREIGN KEY (p_id) REFERENCES tab1(p_id),FOREIGN KEY (a_id) REFERENCES tab3(a_idENCE))'',
     Position = 0,
     Func = Some ''RuleRecursiveDependency'' \<rparr>"

definition rule_KEY_004 :: "Rule" where
  "rule_KEY_004 = \<lparr>
     Item = ''KEY.004'',
     Severity = ''L0'',
     Summary = ''Reminder: Please align the index attribute order with the query'',
     Content = ''If you create a composite index for a column, please make sure that the order of the query attributes and index attributes is the same so that the DBMS can use the index when processing the query. If the query and index attribute orders are not aligned, the DBMS may not be able to use the index during query processing. '',
     Case = ''create index idx1 on tbl (last_name,first_name)'',
     Position = 0,
     Func = Some ''RuleIndexAttributeOrder'' \<rparr>"

definition rule_KEY_005 :: "Rule" where
  "rule_KEY_005 = \<lparr>
     Item = ''KEY.005'',
     Severity = ''L2'',
     Summary = ''Too many indexes are built on the table'',
     Content = ''Table built too many indexes'',
     Case = ''CREATE TABLE tbl (a int, b int, c int, KEY idx_a ('' @ [CHR 0x60] @ ''a'' @ [CHR 0x60] @ ''),KEY idx_b('' @ [CHR 0x60] @ ''b'' @ [CHR 0x60] @ ''),KEY idx_c('' @ [CHR 0x60] @ ''c'' @ [CHR 0x60] @ ''));'',
     Position = 0,
     Func = Some ''RuleTooManyKeys'' \<rparr>"

definition rule_KEY_006 :: "Rule" where
  "rule_KEY_006 = \<lparr>
     Item = ''KEY.006'',
     Severity = ''L4'',
     Summary = ''Too many columns in the primary key'',
     Content = ''Too many columns in primary key'',
     Case = ''CREATE TABLE tbl (a int, b int, c int, PRIMARY KEY('' @ [CHR 0x60] @ ''a'' @ [CHR 0x60] @ '','' @ [CHR 0x60] @ ''b'' @ [CHR 0x60] @ '','' @ [CHR 0x60] @ ''c'' @ [CHR 0x60] @ ''));'',
     Position = 0,
     Func = Some ''RuleTooManyKeyParts'' \<rparr>"

definition rule_KEY_007 :: "Rule" where
  "rule_KEY_007 = \<lparr>
     Item = ''KEY.007'',
     Severity = ''L4'',
     Summary = ''The primary key is not specified or the primary key is not int or bigint'',
     Content = ''The primary key is not specified or the primary key is not int or bigint. It is recommended to set the primary key to int unsigned or bigint unsigned. '',
     Case = ''CREATE TABLE tbl (a int);'',
     Position = 0,
     Func = Some ''RulePKNotInt'' \<rparr>"

definition rule_KEY_008 :: "Rule" where
  "rule_KEY_008 = \<lparr>
     Item = ''KEY.008'',
     Severity = ''L4'',
     Summary = ''ORDER BY multiple columns but different sorting directions may not be able to use the index'',
     Content = ''Before MySQL 8.0, when multiple columns of ORDER BY specify different sorting directions, the established index cannot be used. '',
     Case = ''SELECT * FROM tbl ORDER BY a DESC, b ASC;'',
     Position = 0,
     Func = Some ''RuleOrderByMultiDirection'' \<rparr>"

definition rule_KEY_009 :: "Rule" where
  "rule_KEY_009 = \<lparr>
     Item = ''KEY.009'',
     Severity = ''L0'',
     Summary = ''Please check the data uniqueness before adding a unique index'',
     Content = ''Please check the data uniqueness of the added unique index column in advance. If the data is not unique, the duplicate columns may be automatically deleted when the online table structure is adjusted, which may cause data loss. '',
     Case = ''CREATE UNIQUE INDEX part_of_name ON customer (name(10));'',
     Position = 0,
     Func = Some ''RuleUniqueKeyDup'' \<rparr>"

definition rule_KEY_010 :: "Rule" where
  "rule_KEY_010 = \<lparr>
     Item = ''KEY.010'',
     Severity = ''L0'',
     Summary = ''Full-text indexing is not a silver bullet'',
     Content = ''Full-text index is mainly used to solve the performance problem of fuzzy query, but it is necessary to control the frequency and concurrency of the query. At the same time, pay attention to adjust the ft_min_word_len, ft_max_word_len, ngram_token_size and other parameters. '',
     Case = ''CREATE TABLE '' @ [CHR 0x60] @ ''tb'' @ [CHR 0x60] @ '' ('' @ [CHR 0x60] @ ''id'' @ [CHR 0x60] @ '' int(10) unsigned NOT NULL AUTO_INCREMENT, '' @ [CHR 0x60] @ ''ip'' @ [CHR 0x60] @ '' varchar(255) NOT NULL DEFAULT'' @ [CHR 0x27, CHR 0x27] @ '', PRIMARY KEY ('' @ [CHR 0x60] @ ''id'' @ [CHR 0x60] @ ''), FULLTEXT KEY '' @ [CHR 0x60] @ ''ip'' @ [CHR 0x60] @ '' ('' @ [CHR 0x60] @ ''ip '' @ [CHR 0x60] @ '')) ENGINE=InnoDB;'',
     Position = 0,
     Func = Some ''RuleFulltextIndex'' \<rparr>"

definition rule_KWR_001 :: "Rule" where
  "rule_KWR_001 = \<lparr>
     Item = ''KWR.001'',
     Severity = ''L2'',
     Summary = ''SQL_CALC_FOUND_ROWS is inefficient'',
     Content = ''Because SQL_CALC_FOUND_ROWS can'' @ [CHR 0x27] @ ''t scale well, it may cause performance problems; it is recommended that the business use other strategies to replace the counting function provided by SQL_CALC_FOUND_ROWS, such as: paging results display, etc. '',
     Case = ''select SQL_CALC_FOUND_ROWS col from tbl where id>1000'',
     Position = 0,
     Func = Some ''RuleSQLCalcFoundRows'' \<rparr>"

definition rule_KWR_002 :: "Rule" where
  "rule_KWR_002 = \<lparr>
     Item = ''KWR.002'',
     Severity = ''L2'',
     Summary = ''It is not recommended to use MySQL keywords as column names or table names'',
     Content = ''When using keywords as column names or table names, the program needs to escape the column names and table names. If negligence is caused, the request cannot be executed. '',
     Case = ''CREATE TABLE tbl ('' @ [CHR 0x60] @ ''select'' @ [CHR 0x60] @ '' int )'',
     Position = 0,
     Func = Some ''RuleUseKeyWord'' \<rparr>"

definition rule_KWR_003 :: "Rule" where
  "rule_KWR_003 = \<lparr>
     Item = ''KWR.003'',
     Severity = ''L1'',
     Summary = ''It is not recommended to use plural numbers as column names or table names'',
     Content = ''The name of the table should only indicate the content of the entity in the table, not the number of entities, and the corresponding DO class name is also in singular form, which conforms to the expression habit. '',
     Case = ''CREATE TABLE tbl ('' @ [CHR 0x60] @ ''books'' @ [CHR 0x60] @ '' int )'',
     Position = 0,
     Func = Some ''RulePluralWord'' \<rparr>"

definition rule_KWR_004 :: "Rule" where
  "rule_KWR_004 = \<lparr>
     Item = ''KWR.004'',
     Severity = ''L1'',
     Summary = ''It is not recommended to use multi-byte encoded characters (Chinese) for naming'',
     Content = ''It is recommended to use English, numbers, underscores and other characters when naming libraries, tables, columns, and aliases. Chinese or other multi-byte encoded characters are not recommended. '',
     Case = ''select col as column from tb'',
     Position = 0,
     Func = Some ''RuleMultiBytesWord'' \<rparr>"

definition rule_KWR_005 :: "Rule" where
  "rule_KWR_005 = \<lparr>
     Item = ''KWR.005'',
     Severity = ''L1'',
     Summary = ''SQL contains unicode special characters'',
     Content = ''Some IDEs will automatically insert unicode characters invisible to the naked eye in SQL. Such as: non-break space, zero-width space, etc. Under Linux, you can use the '' @ [CHR 0x60] @ ''cat -A file.sql'' @ [CHR 0x60] @ '' command to view invisible characters.'',
     Case = ''update tb set status = 1 where id = 1;'',
     Position = 0,
     Func = Some ''RuleInvisibleUnicode'' \<rparr>"

definition rule_LCK_001 :: "Rule" where
  "rule_LCK_001 = \<lparr>
     Item = ''LCK.001'',
     Severity = ''L3'',
     Summary = ''INSERT INTO xx SELECT has large locking granularity, please be cautious'',
     Content = ''INSERT INTO xx SELECT lock granularity is large, please be careful'',
     Case = ''INSERT INTO tbl SELECT * FROM tbl2;'',
     Position = 0,
     Func = Some ''RuleInsertSelect'' \<rparr>"

definition rule_LCK_002 :: "Rule" where
  "rule_LCK_002 = \<lparr>
     Item = ''LCK.002'',
     Severity = ''L3'',
     Summary = ''Please use INSERT ON DUPLICATE KEY UPDATE with caution'',
     Content = ''Using INSERT ON DUPLICATE KEY UPDATE when the primary key is an auto-increment key may cause a large number of discontinuous and rapid growth of the primary key, resulting in rapid overflow of the primary key and unable to continue writing. In extreme cases, the master-slave data may be inconsistent. '',
     Case = ''INSERT INTO t1(a,b,c) VALUES (1,2,3) ON DUPLICATE KEY UPDATE c=c+1;'',
     Position = 0,
     Func = Some ''RuleInsertOnDup'' \<rparr>"

definition rule_LIT_001 :: "Rule" where
  "rule_LIT_001 = \<lparr>
     Item = ''LIT.001'',
     Severity = ''L2'',
     Summary = ''Use character type to store IP address'',
     Content = ''The string literally looks like an IP address, but it is not a parameter of INET_ATON(), indicating that the data is stored as characters instead of integers. It is more efficient to store the IP address as an integer. '',
     Case = ''insert into tbl (IP,name) values('' @ [CHR 0x27] @ ''10.20.306.122'' @ [CHR 0x27] @ '','' @ [CHR 0x27] @ ''test'' @ [CHR 0x27] @ '')'',
     Position = 0,
     Func = Some ''RuleIPString'' \<rparr>"

definition rule_LIT_002 :: "Rule" where
  "rule_LIT_002 = \<lparr>
     Item = ''LIT.002'',
     Severity = ''L4'',
     Summary = ''The date/time is not enclosed in quotation marks'',
     Content = ''Query such as '' @ [CHR 0x22] @ ''WHERE col <2010-02-12'' @ [CHR 0x22] @ '' is valid SQL, but it may be an error because it will be interpreted as '' @ [CHR 0x22] @ ''WHERE col <1996'' @ [CHR 0x22] @ ''; date/time text should be quoted. '',
     Case = ''select col1,col2 from tbl where time <2018-01-10'',
     Position = 0,
     Func = Some ''RuleDataNotQuote'' \<rparr>"

definition rule_LIT_003 :: "Rule" where
  "rule_LIT_003 = \<lparr>
     Item = ''LIT.003'',
     Severity = ''L3'',
     Summary = ''A collection of related data stored in a column'',
     Content = ''Store the ID as a list as a VARCHAR/TEXT column, which can cause performance and data integrity issues. Querying such columns requires the use of pattern matching expressions. Using a comma-separated list to do a multi-table join query to locate a row of data is extremely inelegant and time-consuming. This will make it more difficult to verify the ID. Consider, how much data can the list support at most? Store IDs in a separate table instead of using multi-valued attributes, so that each individual attribute value can occupy a row. In this way, the cross table realizes the many-to-many relationship between the two tables. This will simplify the query better and verify the ID more effectively. '',
     Case = ''select c1,c2,c3,c4 from tab1 where col_id REGEXP'' @ [CHR 0x27] @ ''[[:<:]]12[[:>:]]'' @ [CHR 0x27],
     Position = 0,
     Func = Some ''RuleMultiValueAttribute'' \<rparr>"

definition rule_LIT_004 :: "Rule" where
  "rule_LIT_004 = \<lparr>
     Item = ''LIT.004'',
     Severity = ''L1'',
     Summary = ''Please use a semicolon or the set DELIMITER ending'',
     Content = ''USE database, SHOW DATABASES and other commands also need to end with a semicolon or the set DELIMITER. '',
     Case = ''USE db'',
     Position = 0,
     Func = Some ''RuleOK'' \<rparr>"

definition rule_RES_001 :: "Rule" where
  "rule_RES_001 = \<lparr>
     Item = ''RES.001'',
     Severity = ''L4'',
     Summary = ''Indeterministic GROUP BY'',
     Content = ''The column returned by SQL is neither in the aggregate function nor in the column of the GROUP BY expression, so the result of these values '' @ [CHR 0xE2, CHR 0x80, CHR 0x8B, CHR 0xE2, CHR 0x80, CHR 0x8B] @ ''will be non-deterministic. For example: select a, b, c from tbl where foo='' @ [CHR 0x22] @ ''bar'' @ [CHR 0x22] @ '' group by a, the result returned by the SQL is uncertain. '',
     Case = ''select c1,c2,c3 from t1 where c2='' @ [CHR 0x27] @ ''foo'' @ [CHR 0x27] @ '' group by c2'',
     Position = 0,
     Func = Some ''RuleNoDeterministicGroupby'' \<rparr>"

definition rule_RES_002 :: "Rule" where
  "rule_RES_002 = \<lparr>
     Item = ''RES.002'',
     Severity = ''L4'',
     Summary = ''LIMIT query without ORDER BY'',
     Content = ''LIMIT without ORDER BY will lead to non-deterministic results, depending on the query execution plan. '',
     Case = ''select col1,col2 from tbl where name=xx limit 10'',
     Position = 0,
     Func = Some ''RuleNoDeterministicLimit'' \<rparr>"

definition rule_RES_003 :: "Rule" where
  "rule_RES_003 = \<lparr>
     Item = ''RES.003'',
     Severity = ''L4'',
     Summary = ''UPDATE/DELETE operation uses LIMIT conditions'',
     Content = ''UPDATE/DELETE operation using LIMIT condition is as dangerous as not adding WHERE condition, it may cause inconsistency of master-slave data or interruption of slave database synchronization. '',
     Case = ''UPDATE film SET length = 120 WHERE title ='' @ [CHR 0x27] @ ''abc'' @ [CHR 0x27] @ '' LIMIT 1;'',
     Position = 0,
     Func = Some ''RuleUpdateDeleteWithLimit'' \<rparr>"

definition rule_RES_004 :: "Rule" where
  "rule_RES_004 = \<lparr>
     Item = ''RES.004'',
     Severity = ''L4'',
     Summary = ''UPDATE/DELETE operation specifies the ORDER BY condition'',
     Content = ''Do not specify ORDER BY conditions for UPDATE/DELETE operations. '',
     Case = ''UPDATE film SET length = 120 WHERE title ='' @ [CHR 0x27] @ ''abc'' @ [CHR 0x27] @ '' ORDER BY title'',
     Position = 0,
     Func = Some ''RuleUpdateDeleteWithOrderby'' \<rparr>"

definition rule_RES_005 :: "Rule" where
  "rule_RES_005 = \<lparr>
     Item = ''RES.005'',
     Severity = ''L4'',
     Summary = ''There may be logic errors in the UPDATE statement, resulting in data corruption'',
     Content = ''In an UPDATE statement, if you want to update multiple fields, you cannot use AND between the fields, but should be separated by commas.'',
     Case = ''update tbl set col = 1 and cl = 2 where col=3;'',
     Position = 0,
     Func = Some ''RuleUpdateSetAnd'' \<rparr>"

definition rule_RES_006 :: "Rule" where
  "rule_RES_006 = \<lparr>
     Item = ''RES.006'',
     Severity = ''L4'',
     Summary = ''Never really compare conditions'',
     Content = ''The query condition is never true. If the condition appears in where, it may cause the query to have no matching results.'',
     Case = ''select * from tbl where 1 != 1;'',
     Position = 0,
     Func = Some ''RuleImpossibleWhere'' \<rparr>"

definition rule_RES_007 :: "Rule" where
  "rule_RES_007 = \<lparr>
     Item = ''RES.007'',
     Severity = ''L4'',
     Summary = ''Comparison condition is always true'',
     Content = ''The query condition is always true, which may cause the WHERE condition to become invalid for full table query.'',
     Case = ''select * from tbl where 1 = 1;'',
     Position = 0,
     Func = Some ''RuleMeaninglessWhere'' \<rparr>"

definition rule_RES_008 :: "Rule" where
  "rule_RES_008 = \<lparr>
     Item = ''RES.008'',
     Severity = ''L2'',
     Summary = ''It is not recommended to use LOAD DATA/SELECT ... INTO OUTFILE'',
     Content = ''SELECT INTO OUTFILE needs to be granted FILE permission, which will introduce security issues. Although LOAD DATA can increase the speed of data import, it may also cause excessive delay in synchronization from the library.'',
     Case = ''LOAD DATA INFILE'' @ [CHR 0x27] @ ''data.txt'' @ [CHR 0x27] @ '' INTO TABLE db2.my_table;'',
     Position = 0,
     Func = Some ''RuleLoadFile'' \<rparr>"

definition rule_RES_009 :: "Rule" where
  "rule_RES_009 = \<lparr>
     Item = ''RES.009'',
     Severity = ''L2'',
     Summary = ''Continuous judgment is not recommended'',
     Content = ''Similar to this SELECT * FROM tbl WHERE col = col ='' @ [CHR 0x27] @ ''abc'' @ [CHR 0x27] @ '' statement may be a writing error, the meaning you may want to express is col ='' @ [CHR 0x27] @ ''abc'' @ [CHR 0x27] @ ''. If it is indeed a business requirement, it is recommended to modify it to col = col and col ='' @ [CHR 0x27] @ ''abc'' @ [CHR 0x27] @ ''.'',
     Case = ''SELECT * FROM tbl WHERE col = col ='' @ [CHR 0x27] @ ''abc'' @ [CHR 0x27],
     Position = 0,
     Func = Some ''RuleMultiCompare'' \<rparr>"

definition rule_RES_010 :: "Rule" where
  "rule_RES_010 = \<lparr>
     Item = ''RES.010'',
     Severity = ''L2'',
     Summary = ''The field defined as ON UPDATE CURRENT_TIMESTAMP in the table building statement is not recommended to contain business logic'',
     Content = ''The field defined as ON UPDATE CURRENT_TIMESTAMP will be modified when other fields of the table are updated. If it contains business logic, the user will see hidden dangers. If you modify the data in batches but do not want to modify the field, it will cause data errors. '',
     Case = ''CREATE TABLE category (category_id TINYINT UNSIGNED NOT NULL AUTO_INCREMENT, name VARCHAR(25) NOT NULL, last_update TIMESTAMP NOT NULL DEFAULT CURRENT_TIMESTAMP ON UPDATE CURRENT_TIMESTAMP, PRIMARY KEY (category_id)'',
     Position = 0,
     Func = Some ''RuleCreateOnUpdate'' \<rparr>"

definition rule_RES_011 :: "Rule" where
  "rule_RES_011 = \<lparr>
     Item = ''RES.011'',
     Severity = ''L2'',
     Summary = ''The table of the update request operation contains the ON UPDATE CURRENT_TIMESTAMP field'',
     Content = ''The field defined as ON UPDATE CURRENT_TIMESTAMP will be modified when other fields in the table are updated. Please check. If you don'' @ [CHR 0xE2, CHR 0x80, CHR 0x99] @ ''t want to modify the update time of the field, you can use the following method: UPDATE category SET name='' @ [CHR 0x27] @ ''ActioN'' @ [CHR 0x27] @ '', last_update=last_update WHERE category_id=1'',
     Case = ''UPDATE category SET name='' @ [CHR 0x27] @ ''ActioN'' @ [CHR 0x27] @ '', last_update=last_update WHERE category_id=1'',
     Position = 0,
     Func = Some ''RuleOK'' \<rparr>"

definition rule_SEC_001 :: "Rule" where
  "rule_SEC_001 = \<lparr>
     Item = ''SEC.001'',
     Severity = ''L0'',
     Summary = ''Please use TRUNCATE operation with caution'',
     Content = ''Generally speaking, the fastest way to empty a table is to use the TRUNCATE TABLE tbl_name; statement. However, the TRUNCATE operation is not without cost. TRUNCATE TABLE cannot return the exact number of deleted rows. If you need to return the number of deleted rows, it is recommended to use DELETE syntax. TRUNCATE operation will also reset AUTO_INCREMENT, if you don'' @ [CHR 0x27] @ ''t want to reset the value, it is recommended to use DELETE FROM tbl_name WHERE 1; instead. The TRUNCATE operation will add source data locks (MDL) to the data dictionary. When TRUNCATE many tables are required at one time, it will affect all requests of the entire instance. Therefore, if you want to TRUNCATE multiple tables, it is recommended to use DROP+CREATE to reduce the lock duration. '',
     Case = ''TRUNCATE TABLE tbl_name'',
     Position = 0,
     Func = Some ''RuleTruncateTable'' \<rparr>"

definition rule_SEC_002 :: "Rule" where
  "rule_SEC_002 = \<lparr>
     Item = ''SEC.002'',
     Severity = ''L0'',
     Summary = ''Do not store passwords in clear text'',
     Content = ''It is not safe to store passwords in plain text or to transmit passwords in plain text on the network. If an attacker can intercept the SQL statement you use to insert the password, they can read the password directly. In addition, inserting the string entered by the user into a pure SQL statement in plaintext will also allow the attacker to discover it. If you can read the password, so can a hacker. The solution is to use a one-way hash function to encrypt the original password. Hashing refers to a function that transforms an input string into another new, unrecognizable string. Add a random string to the password encryption expression to defend against '' @ [CHR 0x22] @ ''dictionary attacks.'' @ [CHR 0x22] @ '' Do not enter the plaintext password into the SQL query statement. Calculate the hash string in the application code, and only use the hash string in the SQL query. '',
     Case = ''create table test(id int,name varchar(20) not null,password varchar(200)not null)'',
     Position = 0,
     Func = Some ''RuleReadablePasswords'' \<rparr>"

definition rule_SEC_003 :: "Rule" where
  "rule_SEC_003 = \<lparr>
     Item = ''SEC.003'',
     Severity = ''L0'',
     Summary = ''Pay attention to backup when using DELETE/DROP/TRUNCATE and other operations'',
     Content = ''It is necessary to back up data before performing high-risk operations. '',
     Case = ''delete from table where col ='' @ [CHR 0x27] @ ''condition'' @ [CHR 0x27],
     Position = 0,
     Func = Some ''RuleDataDrop'' \<rparr>"

definition rule_SEC_004 :: "Rule" where
  "rule_SEC_004 = \<lparr>
     Item = ''SEC.004'',
     Severity = ''L0'',
     Summary = ''Found common SQL injection functions'',
     Content = ''SLEEP(), BENCHMARK(), GET_LOCK(), RELEASE_LOCK() and other functions usually appear in SQL injection statements, which will seriously affect database performance. '',
     Case = ''SELECT BENCHMARK(10, RAND())'',
     Position = 0,
     Func = Some ''RuleInjection'' \<rparr>"

definition rule_STA_001 :: "Rule" where
  "rule_STA_001 = \<lparr>
     Item = ''STA.001'',
     Severity = ''L0'',
     Summary = [CHR 0x27] @ ''!='' @ [CHR 0x27] @ '' operator is non-standard'',
     Content = [CHR 0x22] @ ''<>'' @ [CHR 0x22] @ '' is the inequality operator in standard SQL. '',
     Case = ''select col1,col2 from tbl where type!=0'',
     Position = 0,
     Func = Some ''RuleStandardINEQ'' \<rparr>"

definition rule_STA_002 :: "Rule" where
  "rule_STA_002 = \<lparr>
     Item = ''STA.002'',
     Severity = ''L1'',
     Summary = ''It is recommended not to add spaces after the dot of the library name or table name'',
     Content = ''When using the db.table or table.column format to access a table or field, please do not add a space after the dot, although the syntax is correct. '',
     Case = ''select col from sakila. film'',
     Position = 0,
     Func = Some ''RuleSpaceAfterDot'' \<rparr>"

definition rule_STA_003 :: "Config \<Rightarrow> Rule" where
  "rule_STA_003 cfg = \<lparr>
     Item = ''STA.003'',
     Severity = ''L1'',
     Summary = ''The index naming is not standardized'',
     Content = ''It is recommended that the common secondary index be prefixed with '' @ IdxPrefix cfg @ '', and the unique index should be prefixed with'' @ UkPrefix cfg @ ''. '',
     Case = ''select col from now where type!=0'',
     Position = 0,
     Func = Some ''RuleIdxPrefix'' \<rparr>"

definition rule_STA_004 :: "Rule" where
  "rule_STA_004 = \<lparr>
     Item = ''STA.004'',
     Severity = ''L1'',
     Summary = ''Please do not use characters other than letters, numbers and underscores when naming'',
     Content = ''Start with a letter or underscore. Only letters, numbers and underscores are allowed in the name. Please unify capitalization and do not use camel case nomenclature. Do not use consecutive underscores'' @ [CHR 0x27] @ ''__'' @ [CHR 0x27] @ '' in the name, as it is difficult to recognize. '',
     Case = ''CREATE TABLE '' @ [CHR 0x60] @ ''abc'' @ [CHR 0x60] @ '' (a int);'',
     Position = 0,
     Func = Some ''RuleStandardName'' \<rparr>"

definition rule_SUB_001 :: "Rule" where
  "rule_SUB_001 = \<lparr>
     Item = ''SUB.001'',
     Severity = ''L4'',
     Summary = ''MySQL has a poor optimization effect on subqueries'',
     Content = ''MySQL executes a subquery with each row in the external query as a dependent subquery. This is a common cause of severe performance problems. This may be improved in MySQL 5.6 version, but for 5.1 and earlier versions, it is recommended to rewrite this type of query as JOIN or LEFT OUTER JOIN respectively. '',
     Case = ''select col1,col2,col3 from table1 where col2 in(select col from table2)'',
     Position = 0,
     Func = Some ''RuleInSubquery'' \<rparr>"

definition rule_SUB_002 :: "Rule" where
  "rule_SUB_002 = \<lparr>
     Item = ''SUB.002'',
     Severity = ''L2'',
     Summary = ''If you don'' @ [CHR 0x27] @ ''t care about duplication, it is recommended to use UNION ALL instead of UNION'',
     Content = ''Unlike UNION which removes duplicates, UNION ALL allows duplicate tuples. If you don'' @ [CHR 0x27] @ ''t care about repeated tuples, then using UNION ALL will be a faster option. '',
     Case = ''select teacher_id as id,people_name as name from t1,t2 where t1.teacher_id=t2.people_id union select student_id as id,people_name as name from t1,t2 where t1.student_id=t2.people_id'',
     Position = 0,
     Func = Some ''RuleUNIONUsage'' \<rparr>"

definition rule_SUB_003 :: "Rule" where
  "rule_SUB_003 = \<lparr>
     Item = ''SUB.003'',
     Severity = ''L3'',
     Summary = ''Consider using EXISTS instead of DISTINCT subqueries'',
     Content = ''DISTINCT keyword deletes duplicates after sorting tuples. Instead, consider using a subquery with the EXISTS keyword, you can avoid returning the entire table. '',
     Case = ''SELECT DISTINCT c.c_id, c.c_name FROM c,e WHERE e.c_id = c.c_id'',
     Position = 0,
     Func = Some ''RuleDistinctJoinUsage'' \<rparr>"

definition rule_SUB_004 :: "Rule" where
  "rule_SUB_004 = \<lparr>
     Item = ''SUB.004'',
     Severity = ''L3'',
     Summary = ''The nested connection depth in the execution plan is too deep'',
     Content = ''MySQL'' @ [CHR 0x27] @ ''s optimization effect on sub-queries is not good. MySQL will execute sub-queries as dependent sub-queries for each row in the external query. This is a common cause of severe performance problems. '',
     Case = ''SELECT * from tb where id in (select id from (select id from tb))'',
     Position = 0,
     Func = Some ''RuleSubqueryDepth'' \<rparr>"

definition rule_SUB_005 :: "Rule" where
  "rule_SUB_005 = \<lparr>
     Item = ''SUB.005'',
     Severity = ''L8'',
     Summary = ''Subqueries do not support LIMIT'',
     Content = ''The current MySQL version does not support'' @ [CHR 0x27] @ ''LIMIT & IN/ALL/ANY/SOME'' @ [CHR 0x27] @ '' in sub-queries. '',
     Case = ''SELECT * FROM staff WHERE name IN (SELECT NAME FROM customer ORDER BY name LIMIT 1)'',
     Position = 0,
     Func = Some ''RuleSubQueryLimit'' \<rparr>"

definition rule_SUB_006 :: "Rule" where
  "rule_SUB_006 = \<lparr>
     Item = ''SUB.006'',
     Severity = ''L2'',
     Summary = ''It is not recommended to use functions in subqueries'',
     Content = ''MySQL takes each row in the external query as a dependent subquery to execute a subquery. If a function is used in the subquery, it is difficult to perform an efficient query even with a semi-join. You can rewrite the subquery as an OUTER JOIN statement and filter the data with join conditions. '',
     Case = ''SELECT * FROM staff WHERE name IN (SELECT max(NAME) FROM customer)'',
     Position = 0,
     Func = Some ''RuleSubQueryFunctions'' \<rparr>"

definition rule_SUB_007 :: "Rule" where
  "rule_SUB_007 = \<lparr>
     Item = ''SUB.007'',
     Severity = ''L2'',
     Summary = ''For UNION joint queries with LIMIT output restrictions on the outer layer, it is recommended to add LIMIT output restrictions for the inner query.'',
     Content = ''Sometimes MySQL cannot '' @ [CHR 0x22] @ ''push down'' @ [CHR 0x22] @ '' the restriction conditions from the outer layer to the inner layer, which will make the conditions that could restrict the partial return results unable to be applied to the optimization of the inner query. For example: (SELECT * FROM tb1 ORDER BY name) UNION ALL (SELECT * FROM tb2 ORDER BY name) LIMIT 20; MySQL will put the results of the two sub-queries in a temporary table, and then take out 20 results, which can be passed in the two LIMIT 20 is added to each subquery to reduce the data in the temporary table. (SELECT * FROM tb1 ORDER BY name LIMIT 20) UNION ALL (SELECT * FROM tb2 ORDER BY name LIMIT 20) LIMIT 20;'',
     Case = ''(SELECT * FROM tb1 ORDER BY name LIMIT 20) UNION ALL (SELECT * FROM tb2 ORDER BY name LIMIT 20) LIMIT 20;'',
     Position = 0,
     Func = Some ''RuleUNIONLimit'' \<rparr>"

definition rule_TBL_001 :: "Rule" where
  "rule_TBL_001 = \<lparr>
     Item = ''TBL.001'',
     Severity = ''L4'',
     Summary = ''Partition table is not recommended'',
     Content = ''Partition table is not recommended'',
     Case = ''CREATE TABLE trb3(id INT, name VARCHAR(50), purchased DATE) PARTITION BY RANGE(YEAR(purchased)) (PARTITION p0 VALUES LESS THAN (1990), PARTITION p1 VALUES LESS THAN (1995), PARTITION p2 VALUES LESS THAN (2000), PARTITION p3 VALUES LESS THAN (2005) );'',
     Position = 0,
     Func = Some ''RulePartitionNotAllowed'' \<rparr>"

definition rule_TBL_002 :: "Config \<Rightarrow> Rule" where
  "rule_TBL_002 cfg = \<lparr>
     Item = ''TBL.002'',
     Severity = ''L4'',
     Summary = ''Please select the appropriate storage engine for the table'',
     Content = ''It is recommended to use the recommended storage engine when creating a table or modifying the storage engine of a table, such as: '' @ Join (AllowEngines cfg) ('',''),
     Case = ''create table test('' @ [CHR 0x60] @ ''id'' @ [CHR 0x60] @ '' int(11) NOT NULL AUTO_INCREMENT)'',
     Position = 0,
     Func = Some ''RuleAllowEngine'' \<rparr>"

definition rule_TBL_003 :: "Rule" where
  "rule_TBL_003 = \<lparr>
     Item = ''TBL.003'',
     Severity = ''L8'',
     Summary = ''The table named DUAL has a special meaning in the database'',
     Content = ''DUAL table is a virtual table, you don'' @ [CHR 0x27] @ ''t need to create it to use it, and it is not recommended that the service name the table with DUAL. '',
     Case = ''create table dual(id int, primary key (id));'',
     Position = 0,
     Func = Some ''RuleCreateDualTable'' \<rparr>"

definition rule_TBL_004 :: "Rule" where
  "rule_TBL_004 = \<lparr>
     Item = ''TBL.004'',
     Severity = ''L2'',
     Summary = ''The initial AUTO_INCREMENT value of the table is not 0'',
     Content = ''AUTO_INCREMENT is not 0 will cause data holes. '',
     Case = ''CREATE TABLE tbl (a int) AUTO_INCREMENT = 10;'',
     Position = 0,
     Func = Some ''RuleAutoIncrementInitNotZero'' \<rparr>"

definition rule_TBL_005 :: "Config \<Rightarrow> Rule" where
  "rule_TBL_005 cfg = \<lparr>
     Item = ''TBL.005'',
     Severity = ''L4'',
     Summary = ''Please use the recommended character set'',
     Content = ''The table character set is only allowed to be set to'' @ [CHR 0x27] @ Join (AllowCharsets cfg) ('','') @ [CHR 0x27],
     Case = ''CREATE TABLE tbl (a int) DEFAULT CHARSET = latin1;'',
     Position = 0,
     Func = Some ''RuleTableCharsetCheck'' \<rparr>"

definition rule_TBL_006 :: "Rule" where
  "rule_TBL_006 = \<lparr>
     Item = ''TBL.006'',
     Severity = ''L1'',
     Summary = ''View is not recommended'',
     Content = ''View is not recommended'',
     Case = ''create view v_today (today) AS SELECT CURRENT_DATE;'',
     Position = 0,
     Func = Some ''RuleForbiddenView'' \<rparr>"

definition rule_TBL_007 :: "Rule" where
  "rule_TBL_007 = \<lparr>
     Item = ''TBL.007'',
     Severity = ''L1'',
     Summary = ''It is not recommended to use temporary tables'',
     Content = ''Temporary tables are not recommended'',
     Case = ''CREATE TEMPORARY TABLE '' @ [CHR 0x60] @ ''work'' @ [CHR 0x60] @ '' ('' @ [CHR 0x60] @ ''time'' @ [CHR 0x60] @ '' time DEFAULT NULL) ENGINE=InnoDB;'',
     Position = 0,
     Func = Some ''RuleForbiddenTempTable'' \<rparr>"

definition rule_TBL_008 :: "Config \<Rightarrow> Rule" where
  "rule_TBL_008 cfg = \<lparr>
     Item = ''TBL.008'',
     Severity = ''L4'',
     Summary = ''Please use the recommended COLLATE'',
     Content = ''COLLATE is only allowed to be set to'' @ [CHR 0x27] @ Join (AllowCollates cfg) ('','') @ [CHR 0x27],
     Case = ''CREATE TABLE tbl (a int) DEFAULT COLLATE = latin1_bin;'',
     Position = 0,
     Func = Some ''RuleTableCharsetCheck'' \<rparr>"

definition InitHeuristicRules :: "Config \<Rightarrow> (string \<times> Rule) list" where
  "InitHeuristicRules cfg = [
     (''OK'', rule_OK),
     (''ALI.001'', rule_ALI_001),
     (''ALI.002'', rule_ALI_002),
     (''ALI.003'', rule_ALI_003),
     (''ALT.001'', rule_ALT_001),
     (''ALT.002'', rule_ALT_002),
     (''ALT.003'', rule_ALT_003),
     (''ALT.004'', rule_ALT_004),
     (''ARG.001'', rule_ARG_001),
     (''ARG.002'', rule_ARG_002),
     (''ARG.003'', rule_ARG_003),
     (''ARG.004'', rule_ARG_004),
     (''ARG.005'', rule_ARG_005),
     (''ARG.006'', rule_ARG_006),
     (''ARG.007'', rule_ARG_007),
     (''ARG.008'', rule_ARG_008),
     (''ARG.009'', rule_ARG_009),
     (''ARG.010'', rule_ARG_010),
     (''ARG.011'', rule_ARG_011),
     (''ARG.012'', rule_ARG_012),
     (''ARG.013'', rule_ARG_013),
     (''ARG.014'', rule_ARG_014),
     (''CLA.001'', rule_CLA_001),
     (''CLA.002'', rule_CLA_002),
     (''CLA.003'', rule_CLA_003),
     (''CLA.004'', rule_CLA_004),
     (''CLA.005'', rule_CLA_005),
     (''CLA.006'', rule_CLA_006),
     (''CLA.007'', rule_CLA_007),
     (''CLA.008'', rule_CLA_008),
     (''CLA.009'', rule_CLA_009),
     (''CLA.010'', rule_CLA_010),
     (''CLA.011'', rule_CLA_011),
     (''CLA.012'', rule_CLA_012),
     (''CLA.013'', rule_CLA_013),
     (''CLA.014'', rule_CLA_014),
     (''CLA.015'', rule_CLA_015),
     (''CLA.016'', rule_CLA_016),
     (''COL.001'', rule_COL_001),
     (''COL.002'', rule_COL_002),
     (''COL.003'', rule_COL_003),
     (''COL.004'', rule_COL_004),
     (''COL.005'', rule_COL_005),
     (''COL.006'', rule_COL_006),
     (''COL.007'', rule_COL_007 cfg),
     (''COL.008'', rule_COL_008),
     (''COL.009'', rule_COL_009),
     (''COL.010'', rule_COL_010),
     (''COL.011'', rule_COL_011),
     (''COL.012'', rule_COL_012),
     (''COL.013'', rule_COL_013),
     (''COL.014'', rule_COL_014),
     (''COL.015'', rule_COL_015),
     (''COL.016'', rule_COL_016),
     (''COL.017'', rule_COL_017 cfg),
     (''COL.018'', rule_COL_018 cfg),
     (''COL.019'', rule_COL_019),
     (''DIS.001'', rule_DIS_001),
     (''DIS.002'', rule_DIS_002),
     (''DIS.003'', rule_DIS_003),
     (''FUN.001'', rule_FUN_001),
     (''FUN.002'', rule_FUN_002),
     (''FUN.003'', rule_FUN_003),
     (''FUN.004'', rule_FUN_004),
     (''FUN.005'', rule_FUN_005),
     (''FUN.006'', rule_FUN_006),
     (''FUN.007'', rule_FUN_007),
     (''FUN.008'', rule_FUN_008),
     (''FUN.009'', rule_FUN_009),
     (''GRP.001'', rule_GRP_001),
     (''JOI.001'', rule_JOI_001),
     (''JOI.002'', rule_JOI_002),
     (''JOI.003'', rule_JOI_003),
     (''JOI.004'', rule_JOI_004),
     (''JOI.005'', rule_JOI_005),
     (''JOI.006'', rule_JOI_006),
     (''JOI.007'', rule_JOI_007),
     (''JOI.008'', rule_JOI_008),
     (''KEY.001'', rule_KEY_001),
     (''KEY.002'', rule_KEY_002),
     (''KEY.003'', rule_KEY_003),
     (''KEY.004'', rule_KEY_004),
     (''KEY.005'', rule_KEY_005),
     (''KEY.006'', rule_KEY_006),
     (''KEY.007'', rule_KEY_007),
     (''KEY.008'', rule_KEY_008),
     (''KEY.009'', rule_KEY_009),
     (''KEY.010'', rule_KEY_010),
     (''KWR.001'', rule_KWR_001),
     (''KWR.002'', rule_KWR_002),
     (''KWR.003'', rule_KWR_003),
     (''KWR.004'', rule_KWR_004),
     (''KWR.005'', rule_KWR_005),
     (''LCK.001'', rule_LCK_001),
     (''LCK.002'', rule_LCK_002),
     (''LIT.001'', rule_LIT_001),
     (''LIT.002'', rule_LIT_002),
     (''LIT.003'', rule_LIT_003),
     (''LIT.004'', rule_LIT_004),
     (''RES.001'', rule_RES_001),
     (''RES.002'', rule_RES_002),
     (''RES.003'', rule_RES_003),
     (''RES.004'', rule_RES_004),
     (''RES.005'', rule_RES_005),
     (''RES.006'', rule_RES_006),
     (''RES.007'', rule_RES_007),
     (''RES.008'', rule_RES_008),
     (''RES.009'', rule_RES_009),
     (''RES.010'', rule_RES_010),
     (''RES.011'', rule_RES_011),
     (''SEC.001'', rule_SEC_001),
     (''SEC.002'', rule_SEC_002),
     (''SEC.003'', rule_SEC_003),
     (''SEC.004'', rule_SEC_004),
     (''STA.001'', rule_STA_001),
     (''STA.002'', rule_STA_002),
     (''STA.003'', rule_STA_003 cfg),
     (''STA.004'', rule_STA_004),
     (''SUB.001'', rule_SUB_001),
     (''SUB.002'', rule_SUB_002),
     (''SUB.003'', rule_SUB_003),
     (''SUB.004'', rule_SUB_004),
     (''SUB.005'', rule_SUB_005),
     (''SUB.006'', rule_SUB_006),
     (''SUB.007'', rule_SUB_007),
     (''TBL.001'', rule_TBL_001),
     (''TBL.002'', rule_TBL_002 cfg),
     (''TBL.003'', rule_TBL_003),
     (''TBL.004'', rule_TBL_004),
     (''TBL.005'', rule_TBL_005 cfg),
     (''TBL.006'', rule_TBL_006),
     (''TBL.007'', rule_TBL_007),
     (''TBL.008'', rule_TBL_008 cfg)
   ]"

subsection \<open>The ignore gate and the block list\<close>

text \<open>
  \<^verbatim>\<open>IsIgnoreRule\<close> walks \<^verbatim>\<open>common.Config.IgnoreRules\<close> and returns at the first
  pattern that, with its asterisks trimmed, is a prefix of the item and is neither
  \<^verbatim>\<open>"OK"\<close> nor empty.
\<close>

fun IsIgnoreRule_loop :: "string list \<Rightarrow> string \<Rightarrow> bool" where
  "IsIgnoreRule_loop [] item = False"
| "IsIgnoreRule_loop (ir # irs) item =
     (let ir' = Trim ir ''*''
      in if HasPrefix item ir' \<and> ir' \<noteq> ''OK'' \<and> ir' \<noteq> [] then True
         else IsIgnoreRule_loop irs item)"

definition IsIgnoreRule :: "Config \<Rightarrow> string \<Rightarrow> bool" where
  "IsIgnoreRule cfg item = IsIgnoreRule_loop (IgnoreRules cfg) item"

text \<open>
  The part of package \<^verbatim>\<open>regexp\<close> that \<^verbatim>\<open>InBlackList\<close> calls: \<^verbatim>\<open>regexp.Compile\<close>,
  which fails on a malformed pattern, and \<^verbatim>\<open>Regexp.FindString\<close>, the text of the
  leftmost match, which is empty when there is no match and also when the match is
  the empty string. \<^verbatim>\<open>Regexp.MatchString\<close>, whether the text contains a match, is not
  called by the source; it is what "the pattern matches the text" means.
\<close>

record 're regexp_lib =
  Compile :: "string \<Rightarrow> 're option"
  FindString :: "'re \<Rightarrow> string \<Rightarrow> string"
  MatchString :: "'re \<Rightarrow> string \<Rightarrow> bool"

text \<open>
  \<^verbatim>\<open>InBlackList\<close>: the loop over \<^verbatim>\<open>common.BlackList\<close> breaks with \<^verbatim>\<open>true\<close> at the first
  pattern that equals the text or whose case-insensitive regular expression finds a
  non-empty string in it; a pattern that does not compile is skipped.
\<close>

fun InBlackList_loop :: "'re regexp_lib \<Rightarrow> string list \<Rightarrow> string \<Rightarrow> bool" where
  "InBlackList_loop lib [] sql = False"
| "InBlackList_loop lib (r # rs) sql =
     (if sql = r then True
      else case Compile lib (''(?i)'' @ r) of
             Some re \<Rightarrow>
               if FindString lib re sql \<noteq> [] then True else InBlackList_loop lib rs sql
           | None \<Rightarrow> InBlackList_loop lib rs sql)"

definition InBlackList :: "'re regexp_lib \<Rightarrow> string list \<Rightarrow> string \<Rightarrow> bool" where
  "InBlackList lib BlackList sql = InBlackList_loop lib BlackList sql"

text \<open>
  A regular-expression engine for the patterns without metacharacters, used to
  evaluate \<open>InBlackList\<close> on concrete patterns: after the flag \<^verbatim>\<open>(?i)\<close> a pattern
  made of letters, digits and spaces matches the places where the text spells it,
  upper and lower case alike. A compiled pattern is the literal itself. Patterns
  outside this fragment are not modelled and are reported as \<open>None\<close>.
\<close>

definition lower :: "char \<Rightarrow> char" where
  "lower c =
     (case map_of (zip ''ABCDEFGHIJKLMNOPQRSTUVWXYZ'' ''abcdefghijklmnopqrstuvwxyz'') c of
        Some l \<Rightarrow> l
      | None \<Rightarrow> c)"

definition is_plain :: "char \<Rightarrow> bool" where
  "is_plain c = (is_digit c \<or> (CHR ''a'' \<le> lower c \<and> lower c \<le> CHR ''z'') \<or> c = CHR '' '')"

fun find_fold :: "string \<Rightarrow> string \<Rightarrow> string option" where
  "find_fold lit [] = (if lit = [] then Some [] else None)"
| "find_fold lit (c # cs) =
     (if length lit \<le> length (c # cs) \<and> map lower (take (length lit) (c # cs)) = map lower lit
      then Some (take (length lit) (c # cs))
      else find_fold lit cs)"

definition literal_regexp :: "string regexp_lib" where
  "literal_regexp = \<lparr>
     Compile = (\<lambda>p. if HasPrefix p ''(?i)'' \<and> list_all is_plain (drop 4 p)
                     then Some (drop 4 p) else None),
     FindString = (\<lambda>lit s. case find_fold lit s of Some t \<Rightarrow> t | None \<Rightarrow> []),
     MatchString = (\<lambda>lit s. find_fold lit s \<noteq> None) \<rparr>"


subsection \<open>Collaborators of the renderer\<close>

text \<open>
  The struct \<^verbatim>\<open>JSONSuggest\<close> that \<^verbatim>\<open>formatJSON\<close> fills and encodes.
\<close>

record JSONSuggest =
  ID :: string
  Fingerprint :: string
  Score :: int
  Sample :: string
  Explain :: "Rule list"
  HeuristicRules :: "Rule list"
  IndexRules :: "Rule list"
  Tables :: "string list"

text \<open>
  The functions of other packages that \<^verbatim>\<open>FormatSuggest\<close> and \<^verbatim>\<open>formatJSON\<close> call:
  \<^verbatim>\<open>query.Fingerprint\<close>, \<^verbatim>\<open>query.Id\<close>, \<^verbatim>\<open>ast.Pretty\<close>, \<^verbatim>\<open>common.MarkdownEscape\<close>,
  \<^verbatim>\<open>common.Score\<close>, \<^verbatim>\<open>ast.SchemaMetaInfo\<close>, \<^verbatim>\<open>json.MarshalIndent\<close> (\<open>None\<close> when it
  returns an error), \<^verbatim>\<open>pretty.Sprint\<close>, and \<^verbatim>\<open>MergeConflictHeuristicRules\<close>, which is
  defined in another file of package \<^verbatim>\<open>advisor\<close>.
\<close>

record collaborators =
  query_Fingerprint :: "string \<Rightarrow> string"
  query_Id :: "string \<Rightarrow> string"
  ast_Pretty :: "string \<Rightarrow> string \<Rightarrow> string"
  common_MarkdownEscape :: "string \<Rightarrow> string"
  common_Score :: "int \<Rightarrow> string"
  ast_SchemaMetaInfo :: "string \<Rightarrow> string \<Rightarrow> string list"
  json_MarshalIndent :: "JSONSuggest \<Rightarrow> string option"
  pretty_Sprint :: "Rule \<Rightarrow> string"
  MergeConflictHeuristicRules :: "rule_map \<Rightarrow> rule_map"

subsection \<open>formatJSON\<close>

text \<open>
  The score loop of \<^verbatim>\<open>formatJSON\<close>. The value that \<^verbatim>\<open>strconv.Atoi\<close> returns is used
  whether or not it comes with an error (the error is only logged).
\<close>

definition json_minus :: "Rule \<Rightarrow> int" where
  "json_minus r = fst (Atoi (TrimLeft (Severity r) ''L''))"

definition json_score_step :: "string \<times> Rule \<Rightarrow> int \<Rightarrow> int" where
  "json_score_step = (\<lambda>(item, r) sc.
     let sc' = wrap64 (sc - wrap64 (json_minus r * 5))
     in if HasPrefix item ''ERR'' \<and> Content r \<noteq> [] then 0 else sc')"

definition json_score :: "rule_map \<Rightarrow> int" where
  "json_score m = (let sc = fold json_score_step m 100 in if sc < 0 then 0 else sc)"

text \<open>
  The three arrays: the keys of one kind are collected, sorted with
  \<^verbatim>\<open>sort.Strings\<close>, and the rules stored under them appended in that order.
\<close>

definition keys :: "rule_map \<Rightarrow> string list" where
  "keys m = map fst m"

definition json_explain_keys :: "rule_map \<Rightarrow> string list" where
  "json_explain_keys m = sort [item \<leftarrow> keys m. HasPrefix item ''EXP'']"

definition json_index_keys :: "rule_map \<Rightarrow> string list" where
  "json_index_keys m = sort [item \<leftarrow> keys m. HasPrefix item ''IDX'']"

definition json_heuristic_keys :: "rule_map \<Rightarrow> string list" where
  "json_heuristic_keys m =
     sort [item \<leftarrow> keys m.
             \<not> HasPrefix item ''EXP'' \<and> \<not> HasPrefix item ''IDX'' \<and>
             \<not> (HasPrefix item ''ERR'' \<and> Content (lookup m item) = [])]"

definition formatJSON_sug :: "collaborators \<Rightarrow> string \<Rightarrow> string \<Rightarrow> rule_map \<Rightarrow> JSONSuggest" where
  "formatJSON_sug env sql db m =
     (let fingerprint = query_Fingerprint env sql;
          qid = query_Id env fingerprint
      in \<lparr> ID = qid,
           Fingerprint = fingerprint,
           Score = json_score m,
           Sample = sql,
           Explain = map (lookup m) (json_explain_keys m),
           HeuristicRules = map (lookup m) (json_heuristic_keys m),
           IndexRules = map (lookup m) (json_index_keys m),
           Tables = ast_SchemaMetaInfo env sql db \<rparr>)"

definition formatJSON :: "collaborators \<Rightarrow> string \<Rightarrow> string \<Rightarrow> rule_map \<Rightarrow> string" where
  "formatJSON env sql db m =
     (case json_MarshalIndent env (formatJSON_sug env sql db m) of
        Some js \<Rightarrow> js
      | None \<Rightarrow> [])"

subsection \<open>FormatSuggest: merging and normalisation\<close>

text \<open>The loop that merges the maps passed to \<^verbatim>\<open>FormatSuggest\<close>; a later map wins.\<close>

definition merge_suggests :: "rule_map list \<Rightarrow> rule_map" where
  "merge_suggests suggests =
     fold (\<lambda>s acc. fold (\<lambda>(item, rule) acc'. map_store item rule acc') s acc) suggests []"

text \<open>\<^verbatim>\<open>ignoreOK\<close> is set when some configured ignore rule is the string \<^verbatim>\<open>OK\<close>.\<close>

definition ignoreOK :: "Config \<Rightarrow> bool" where
  "ignoreOK cfg = list_ex (\<lambda>r. ''OK'' = r) (IgnoreRules cfg)"

text \<open>
  The normalisation before the \<^verbatim>\<open>switch\<close>: an empty set becomes the entry \<^verbatim>\<open>OK\<close> of
  the catalog, \<^verbatim>\<open>OK\<close> is deleted when it is ignored or not alone, and every key that
  \<open>IsIgnoreRule\<close> accepts is deleted. The catalog is the value of the variable
  \<^verbatim>\<open>HeuristicRules\<close> at the time of the call.
\<close>

definition normalize_suggest :: "Config \<Rightarrow> rule_map \<Rightarrow> rule_map \<Rightarrow> rule_map" where
  "normalize_suggest cfg catalog suggest0 =
     (let s1 = (if length suggest0 < 1 then [(''OK'', lookup catalog ''OK'')] else suggest0);
          s2 = (if ignoreOK cfg \<or> 1 < length s1 then map_delete ''OK'' s1 else s1)
      in [(k, r) \<leftarrow> s2. \<not> IsIgnoreRule cfg k])"

subsection \<open>FormatSuggest: the text, lint and default formats\<close>

definition format_text :: "string \<Rightarrow> string \<Rightarrow> rule_map \<Rightarrow> string list" where
  "format_text sql qid m =
     concat (map (\<lambda>(item, rule).
       [Sprintln2 ''Query: '' sql,
        Sprintln2 ''ID: '' qid,
        Sprintln2 ''Item: '' item,
        Sprintln2 ''Severity: '' (Severity rule),
        Sprintln2 ''Summary: '' (Summary rule),
        Sprintln2 ''Content: '' (Content rule)]) m)"

definition format_lint :: "rule_map \<Rightarrow> string list" where
  "format_lint m =
     concat (map (\<lambda>(item, rule).
       if item \<noteq> ''OK'' \<and> \<not> HasPrefix item ''EXP'' then [item @ '' '' @ Summary rule] else []) m)"

definition format_default :: "collaborators \<Rightarrow> string \<Rightarrow> rule_map \<Rightarrow> string list" where
  "format_default env sql m =
     Sprintln2 ''Query: '' sql # map (\<lambda>(item, rule). pretty_Sprint env rule) m"

subsection \<open>FormatSuggest: the markdown family\<close>

text \<open>
  The state of the markdown branch: the map \<^verbatim>\<open>suggest\<close>, from which the branch
  deletes what it has rendered, the lines \<^verbatim>\<open>buf\<close> and the running \<^verbatim>\<open>score\<close>.
\<close>

record md_state =
  suggest :: rule_map
  buf :: "string list"
  score :: int

text \<open>The header: the query id and the fenced query, when there is something to show.\<close>

definition md_header :: "collaborators \<Rightarrow> Config \<Rightarrow> string \<Rightarrow> string \<Rightarrow> string \<Rightarrow> string \<Rightarrow>
    md_state \<Rightarrow> md_state" where
  "md_header env cfg sql format fingerprint qid st =
     (if sql \<noteq> [] \<and> 0 < length (suggest st) then
        st\<lparr> buf := buf st @
          [''# Query: '' @ qid @ [CHR 0x0A],
           [CHR 0x60, CHR 0x60, CHR 0x60] @ ''sql'' @ [CHR 0x0A] @
             (if ExplainSQLReportType cfg = ''fingerprint'' then fingerprint
              else if ExplainSQLReportType cfg = ''sample'' then sql
              else ast_Pretty env sql format) @
             [CHR 0x0A, CHR 0x60, CHR 0x60, CHR 0x60, CHR 0x0A]] \<rparr>
      else st)"

text \<open>
  The section \<^verbatim>\<open>MySQL execute failed\<close>: entries of the namespace \<^verbatim>\<open>ERR\<close> with an
  empty content are deleted; the others are rendered in the order of their keys,
  set the score to 0 and are deleted.
\<close>

definition md_mysql_step :: "string \<Rightarrow> md_state \<Rightarrow> md_state" where
  "md_mysql_step item st =
     st\<lparr> buf := buf st @ [Sprintln1 (Content (lookup (suggest st) item))],
         score := 0,
         suggest := map_delete item (suggest st) \<rparr>"

definition md_mysql :: "md_state \<Rightarrow> md_state" where
  "md_mysql st =
     (let s1 = [(item, r) \<leftarrow> suggest st. \<not> (HasPrefix item ''ERR'' \<and> Content r = [])];
          sortedMySQLSuggest = sort [item \<leftarrow> keys s1. HasPrefix item ''ERR''];
          st1 = st\<lparr> suggest := s1,
                    buf := buf st @ (if 0 < length sortedMySQLSuggest
                                     then [''## MySQL execute failed'' @ [CHR 0x0A]] else []) \<rparr>
      in fold md_mysql_step sortedMySQLSuggest st1)"

text \<open>
  The section of the namespace \<^verbatim>\<open>EXP\<close>: \<^verbatim>\<open>EXP.000\<close> is a header of its own and is
  deleted; the other entries follow and stay in the map.
\<close>

definition md_explain_item :: "string \<Rightarrow> Rule \<Rightarrow> string list" where
  "md_explain_item head r =
     [Sprintln2 head (Summary r), Sprintln1 (Content r), Case r @ [CHR 0x0A]]"

definition md_explain :: "md_state \<Rightarrow> md_state" where
  "md_explain st =
     (let st1 = (if Item (lookup (suggest st) ''EXP.000'') \<noteq> [] then
                   st\<lparr> buf := buf st @ md_explain_item ''## '' (lookup (suggest st) ''EXP.000''),
                       suggest := map_delete ''EXP.000'' (suggest st) \<rparr>
                 else st);
          sortedExplainSuggest = sort [item \<leftarrow> keys (suggest st1). HasPrefix item ''EXP'']
      in st1\<lparr> buf := buf st1 @
           concat (map (\<lambda>item. md_explain_item ''### '' (lookup (suggest st1) item))
                     sortedExplainSuggest) \<rparr>)"

text \<open>The sections of the namespaces \<^verbatim>\<open>PRO\<close> and \<^verbatim>\<open>TRA\<close>, which differ in their title.\<close>

definition md_content_step :: "string \<Rightarrow> md_state \<Rightarrow> md_state" where
  "md_content_step item st =
     st\<lparr> buf := buf st @ [Sprintln1 (Content (lookup (suggest st) item))],
         suggest := map_delete item (suggest st) \<rparr>"

definition md_section :: "string \<Rightarrow> string \<Rightarrow> md_state \<Rightarrow> md_state" where
  "md_section pre title st =
     (let sortedSuggest = sort [item \<leftarrow> keys (suggest st). HasPrefix item pre];
          st1 = st\<lparr> buf := buf st @ (if 0 < length sortedSuggest then [title] else []) \<rparr>
      in fold md_content_step sortedSuggest st1)"

definition md_profiling :: "md_state \<Rightarrow> md_state" where
  "md_profiling = md_section ''PRO''
     (''## Profiling'' @ [CHR 0xE4, CHR 0xBF, CHR 0xA1, CHR 0xE6, CHR 0x81, CHR 0xAF, CHR 0x0A])"

definition md_trace :: "md_state \<Rightarrow> md_state" where
  "md_trace = md_section ''TRA''
     (''## Trace'' @ [CHR 0xE4, CHR 0xBF, CHR 0xA1, CHR 0xE6, CHR 0x81, CHR 0xAF, CHR 0x0A])"

text \<open>
  The deduction of the markdown family: the severity with its \<^verbatim>\<open>L\<close>s trimmed on both
  sides is parsed; five points per level are subtracted if it parses, and the score
  is set to 0 if it does not.
\<close>

definition md_deduct :: "Rule \<Rightarrow> int \<Rightarrow> int" where
  "md_deduct r sc =
     (case Atoi (Trim (Severity r) ''L'') of
        (n, None) \<Rightarrow> wrap64 (sc - wrap64 (n * 5))
      | (n, Some err) \<Rightarrow> 0)"

text \<open>The section of the namespace \<^verbatim>\<open>IDX\<close>; its entries stay in the map.\<close>

definition md_index_step :: "collaborators \<Rightarrow> string \<Rightarrow> rule_map \<Rightarrow> string \<Rightarrow>
    string list \<times> int \<Rightarrow> string list \<times> int" where
  "md_index_step env format m item = (\<lambda>(b, sc).
     let r = lookup m item
     in (b @
          [Sprintln2 ''## '' (common_MarkdownEscape env (Summary r)),
           Sprintln2 ''* **Item:** '' item,
           Sprintln2 ''* **Severity:** '' (Severity r),
           Sprintln2 ''* **Content:** '' (common_MarkdownEscape env (Content r))] @
          (if format = ''duplicate-key-checker'' then
             [''* **'' @ [CHR 0xE5, CHR 0x8E, CHR 0x9F, CHR 0xE5, CHR 0xBB, CHR 0xBA,
                          CHR 0xE8, CHR 0xA1, CHR 0xA8, CHR 0xE8, CHR 0xAF, CHR 0xAD,
                          CHR 0xE5, CHR 0x8F, CHR 0xA5] @ '':** '' @
                [CHR 0x0A, CHR 0x60, CHR 0x60, CHR 0x60] @ ''sql'' @ [CHR 0x0A] @ Case r @
                [CHR 0x0A, CHR 0x60, CHR 0x60, CHR 0x60, CHR 0x0A],
              [CHR 0x0A, CHR 0x0A]]
           else
             [''* **Case:** '' @ common_MarkdownEscape env (Case r) @ [CHR 0x0A, CHR 0x0A]]),
         md_deduct r sc))"

definition md_index :: "collaborators \<Rightarrow> string \<Rightarrow> md_state \<Rightarrow> md_state" where
  "md_index env format st =
     (let sortedIdxSuggest = sort [item \<leftarrow> keys (suggest st). HasPrefix item ''IDX''];
          (b, sc) = fold (md_index_step env format (suggest st)) sortedIdxSuggest
                      (buf st, score st)
      in st\<lparr> buf := b, score := sc \<rparr>)"

text \<open>
  The heuristic section: every key outside the namespaces \<^verbatim>\<open>EXP\<close>, \<^verbatim>\<open>IDX\<close> and
  \<^verbatim>\<open>PRO\<close>. The entry \<^verbatim>\<open>OK\<close> shows its summary only and deducts nothing.
\<close>

definition md_heuristic_step :: "collaborators \<Rightarrow> rule_map \<Rightarrow> string \<Rightarrow>
    string list \<times> int \<Rightarrow> string list \<times> int" where
  "md_heuristic_step env m item = (\<lambda>(b, sc).
     let r = lookup m item
     in if item = ''OK'' then (b @ [Sprintln2 ''##'' (Summary r)], sc)
        else (b @
               [Sprintln2 ''##'' (Summary r),
                Sprintln2 ''* **Item:** '' item,
                Sprintln2 ''* **Severity:** '' (Severity r),
                Sprintln2 ''* **Content:** '' (common_MarkdownEscape env (Content r))],
              md_deduct r sc))"

definition md_heuristic :: "collaborators \<Rightarrow> md_state \<Rightarrow> md_state" where
  "md_heuristic env st =
     (let sortedHeuristicSuggest =
            sort [item \<leftarrow> keys (suggest st).
                    \<not> HasPrefix item ''EXP'' \<and> \<not> HasPrefix item ''IDX'' \<and>
                    \<not> HasPrefix item ''PRO''];
          (b, sc) = fold (md_heuristic_step env (suggest st)) sortedHeuristicSuggest
                      (buf st, score st)
      in st\<lparr> buf := b, score := sc \<rparr>)"

text \<open>The markdown branch as a whole, from the state in which the \<^verbatim>\<open>switch\<close> is entered.\<close>

definition format_markdown :: "collaborators \<Rightarrow> Config \<Rightarrow> string \<Rightarrow> string \<Rightarrow> string \<Rightarrow> string \<Rightarrow>
    rule_map \<Rightarrow> md_state" where
  "format_markdown env cfg sql format fingerprint qid m =
     md_heuristic env (md_index env format (md_trace (md_profiling (md_explain (md_mysql
       (md_header env cfg sql format fingerprint qid
          \<lparr> suggest = m, buf = [], score = 100 \<rparr>))))))"

subsection \<open>FormatSuggest\<close>

definition is_markdown_format :: "string \<Rightarrow> bool" where
  "is_markdown_format format =
     (format = ''markdown'' \<or> format = ''html'' \<or> format = ''explain-digest'' \<or>
      format = ''duplicate-key-checker'')"

text \<open>The \<^verbatim>\<open>switch\<close> on the format, applied to the normalised map.\<close>

definition format_switch :: "collaborators \<Rightarrow> Config \<Rightarrow> string \<Rightarrow> string \<Rightarrow> string \<Rightarrow> rule_map \<Rightarrow>
    md_state" where
  "format_switch env cfg sql currentDB format m =
     (let fingerprint = (if sql \<noteq> [] then query_Fingerprint env sql else []);
          qid = (if sql \<noteq> [] then query_Id env fingerprint else [])
      in if format = ''json'' then
           \<lparr> suggest = m, buf = [formatJSON env sql currentDB m], score = 100 \<rparr>
         else if format = ''text'' then
           \<lparr> suggest = m, buf = format_text sql qid m, score = 100 \<rparr>
         else if format = ''lint'' then
           \<lparr> suggest = m, buf = format_lint m, score = 100 \<rparr>
         else if is_markdown_format format then
           format_markdown env cfg sql format fingerprint qid m
         else
           \<lparr> suggest = m, buf = format_default env sql m, score = 100 \<rparr>)"

text \<open>
  The last step joins the lines; for the report types \<^verbatim>\<open>markdown\<close> and \<^verbatim>\<open>html\<close> the
  score line, which \<^verbatim>\<open>common.Score\<close> renders from the score, follows the first line,
  and fewer than two lines give the empty string.
\<close>

definition assemble :: "collaborators \<Rightarrow> Config \<Rightarrow> md_state \<Rightarrow> string" where
  "assemble env cfg st =
     (if ReportType cfg = ''markdown'' \<or> ReportType cfg = ''html'' then
        (if 1 < length (buf st) then
           hd (buf st) @ [CHR 0x0A] @ common_Score env (score st) @ [CHR 0x0A, CHR 0x0A] @
             Join (tl (buf st)) [CHR 0x0A]
         else [])
      else Join (buf st) [CHR 0x0A])"

text \<open>
  \<^verbatim>\<open>FormatSuggest\<close> from the merged and resolved map on, and as a whole. The result
  is the map that is left and the document.
\<close>

definition FormatSuggest_merged :: "collaborators \<Rightarrow> Config \<Rightarrow> rule_map \<Rightarrow> string \<Rightarrow> string \<Rightarrow>
    string \<Rightarrow> rule_map \<Rightarrow> rule_map \<times> string" where
  "FormatSuggest_merged env cfg catalog sql currentDB format merged =
     (let st = format_switch env cfg sql currentDB format (normalize_suggest cfg catalog merged)
      in (suggest st, assemble env cfg st))"

definition FormatSuggest :: "collaborators \<Rightarrow> Config \<Rightarrow> rule_map \<Rightarrow> string \<Rightarrow> string \<Rightarrow>
    string \<Rightarrow> rule_map list \<Rightarrow> rule_map \<times> string" where
  "FormatSuggest env cfg catalog sql currentDB format suggests =
     FormatSuggest_merged env cfg catalog sql currentDB format
       (MergeConflictHeuristicRules env (merge_suggests suggests))"

text \<open>
  An instance of the collaborators for evaluating the renderer on concrete verdict
  sets: every text function is the identity, the score line is the score in
  decimal, and the resolver changes nothing.
\<close>

definition plain_collaborators :: collaborators where
  "plain_collaborators = \<lparr>
     query_Fingerprint = (\<lambda>s. s),
     query_Id = (\<lambda>s. s),
     ast_Pretty = (\<lambda>s format. s),
     common_MarkdownEscape = (\<lambda>s. s),
     common_Score = Itoa,
     ast_SchemaMetaInfo = (\<lambda>s db. []),
     json_MarshalIndent = (\<lambda>j. Some (Itoa (Score j))),
     pretty_Sprint = Item,
     MergeConflictHeuristicRules = (\<lambda>m. m) \<rparr>"

definition default_Config :: Config where
  "default_Config = \<lparr>
     IgnoreRules = [],
     ReportType = ''markdown'',
     ExplainSQLReportType = ''pretty'',
     MaxTextColsCount = 2,
     MaxVarcharLength = 1024,
     ColumnNotAllowType = [''boolean''],
     IdxPrefix = ''idx_'',
     UkPrefix = ''uk_'',
     AllowEngines = [''innodb''],
     AllowCharsets = [''utf8'', ''utf8mb4''],
     AllowCollates = [] \<rparr>"

text \<open>A verdict with the given key and severity, for concrete verdict sets.\<close>

definition verdict :: "string \<Rightarrow> string \<Rightarrow> string \<Rightarrow> string \<times> Rule" where
  "verdict item sev content =
     (item, \<lparr> Item = item, Severity = sev, Summary = item, Content = content, Case = [],
              Position = 0, Func = None \<rparr>)"

subsection \<open>The conflict resolver\<close>

text \<open>
  Modelled from the spec: the function \<^verbatim>\<open>MergeConflictHeuristicRules\<close> is called by
  \<^verbatim>\<open>FormatSuggest\<close> and defined in another file of the package. The specification
  describes it as \<open>Resolve\<close>: a side table declares pairs of a subsumed and a
  superseding identifier, and the resolver removes the verdict of a subsumed
  identifier whenever the superseding identifier is also present in the verdict set.
\<close>

definition subsumed :: "(string \<times> string) list \<Rightarrow> rule_map \<Rightarrow> string \<Rightarrow> bool" where
  "subsumed table s item =
     list_ex (\<lambda>(sub, sup). sub = item \<and> sup \<in> set (keys s)) table"

definition Resolve :: "(string \<times> string) list \<Rightarrow> rule_map \<Rightarrow> rule_map" where
  "Resolve table s = [(item, r) \<leftarrow> s. \<not> subsumed table s item]"


section \<open>Properties\<close>

subsection \<open>The ignore gate\<close>





text \<open>
  The comment of \<^verbatim>\<open>IsIgnoreRule\<close> says that the rule \<^verbatim>\<open>OK\<close> cannot be filtered. The guard
  compares the pattern with \<^verbatim>\<open>OK\<close>, not the item, so a pattern that is a proper prefix
  of \<^verbatim>\<open>OK\<close> passes it and suppresses the sentinel. The statement above says nothing
  about this case.
\<close>

lemma IsIgnoreRule_O_suppresses_OK:
  "IsIgnoreRule (default_Config\<lparr>IgnoreRules := [''O'']\<rparr>) ''OK''"
  by (simp add: IsIgnoreRule_def HasPrefix_def Trim_def TrimLeft_def TrimRight_def)

subsection \<open>The block list\<close>

text \<open>
  C7, as stated, says that \<open>InBlackList\<close> is true whenever some pattern matches the
  text. The empty pattern compiles and matches every text, with the empty string as
  its match; \<^verbatim>\<open>FindString\<close> then returns the empty string and the text is not blocked.
\<close>

theorem InBlackList_empty_match_not_blocked:
  "InBlackList literal_regexp [''''] ''select 1'' = False \<and>
   Compile literal_regexp (''(?i)'' @ '''') = Some [] \<and>
   MatchString literal_regexp [] ''select 1'' = True"
  by (simp add: InBlackList_def literal_regexp_def HasPrefix_def)

text \<open>
  C7, amended: for every text, block list and regular-expression engine,
  \<open>InBlackList\<close> is true exactly when the text equals some pattern or some pattern,
  compiled with the flag \<^verbatim>\<open>(?i)\<close>, finds a non-empty match in the text. A pattern that
  does not compile can block by equality only, and the function returns in every case.
\<close>

theorem InBlackList_nonempty_match:
  "InBlackList lib BlackList sql \<longleftrightarrow>
     (\<exists>r\<in>set BlackList. sql = r \<or>
        (\<exists>re. Compile lib (''(?i)'' @ r) = Some re \<and> FindString lib re sql \<noteq> []))"
  unfolding InBlackList_def
  by (induction BlackList) (auto split: option.splits)

theorem InBlackList_nonempty_match_witness:
  "InBlackList literal_regexp [''drop''] ''DROP table t''"
proof -
  have "\<exists>r\<in>set [''drop'']. ''DROP table t'' = r \<or>
          (\<exists>re. Compile literal_regexp (''(?i)'' @ r) = Some re \<and>
                FindString literal_regexp re ''DROP table t'' \<noteq> [])"
    by (simp add: literal_regexp_def HasPrefix_def is_plain_def is_digit_def lower_def)
  then show ?thesis
    by (rule InBlackList_nonempty_match [THEN iffD2])
qed

subsection \<open>The conflict resolver\<close>

lemma keys_filter_subset: "set (keys (filter P s)) \<subseteq> set (keys s)"
  by (auto simp: keys_def)

text \<open>
  C9: \<open>Resolve\<close> is idempotent, and its result does not depend on the order in which
  the verdict set is visited: two orders of the same set give two orders of the
  same result.
\<close>

theorem Resolve_idempotent_order_independent:
  "Resolve table (Resolve table s) = Resolve table s \<and>
   (mset s' = mset s \<longrightarrow> mset (Resolve table s') = mset (Resolve table s))"
proof
  have keep: "\<not> subsumed table (Resolve table s) item" if "\<not> subsumed table s item" for item
    using that keys_filter_subset [of _ s]
    unfolding subsumed_def Resolve_def list_ex_iff by blast
  have "\<forall>x\<in>set (Resolve table s). case x of (item, r) \<Rightarrow> \<not> subsumed table (Resolve table s) item"
    using keep by (auto simp: Resolve_def)
  then have "filter (\<lambda>(item, r). \<not> subsumed table (Resolve table s) item) (Resolve table s) =
             Resolve table s"
    by (simp only: filter_id_conv)
  then show "Resolve table (Resolve table s) = Resolve table s"
    by (simp add: Resolve_def)
next
  show "mset s' = mset s \<longrightarrow> mset (Resolve table s') = mset (Resolve table s)"
  proof
    assume eq: "mset s' = mset s"
    then have "set (keys s') = set (keys s)"
      unfolding keys_def by (metis mset_eq_setD set_map)
    then have "subsumed table s' = subsumed table s"
      unfolding subsumed_def by simp
    with eq show "mset (Resolve table s') = mset (Resolve table s)"
      unfolding Resolve_def by (simp add: mset_filter)
  qed
qed

theorem Resolve_idempotent_order_independent_witness:
  "mset [verdict ''KEY.002'' ''L4'' ''c'', verdict ''KEY.007'' ''L4'' ''c''] =
     mset [verdict ''KEY.007'' ''L4'' ''c'', verdict ''KEY.002'' ''L4'' ''c''] \<and>
   mset (Resolve [(''KEY.002'', ''KEY.007'')]
           [verdict ''KEY.002'' ''L4'' ''c'', verdict ''KEY.007'' ''L4'' ''c'']) =
     mset (Resolve [(''KEY.002'', ''KEY.007'')]
           [verdict ''KEY.007'' ''L4'' ''c'', verdict ''KEY.002'' ''L4'' ''c''])"
proof -
  have h: "mset [verdict ''KEY.002'' ''L4'' ''c'', verdict ''KEY.007'' ''L4'' ''c''] =
           mset [verdict ''KEY.007'' ''L4'' ''c'', verdict ''KEY.002'' ''L4'' ''c'']"
    by (simp add: add.commute)
  from h show ?thesis
    using Resolve_idempotent_order_independent
      [of "[(''KEY.002'', ''KEY.007'')]"
          "[verdict ''KEY.007'' ''L4'' ''c'', verdict ''KEY.002'' ''L4'' ''c'']"
          "[verdict ''KEY.002'' ''L4'' ''c'', verdict ''KEY.007'' ''L4'' ''c'']"]
    by blast
qed

subsection \<open>The arrays of the JSON document\<close>

lemma lookup_distinct: "distinct (keys m) \<Longrightarrow> (k, r) \<in> set m \<Longrightarrow> lookup m k = r"
  by (simp add: lookup_def keys_def)

lemma lookup_in_set: "k \<in> set (keys m) \<Longrightarrow> (k, lookup m k) \<in> set m"
  by (induction m) (auto simp: lookup_def keys_def)

lemma singleton_list:
  assumes "distinct xs" and "set xs = {x}"
  shows "xs = [x]"
proof -
  have "length xs = 1"
    using assms distinct_card [of xs] by simp
  then obtain y where "xs = [y]"
    by (cases xs) auto
  with assms(2) show ?thesis by simp
qed

lemma sorted_bucket:
  assumes d: "distinct (keys m)"
  shows "\<exists>ps. map (lookup m) (sort [k \<leftarrow> keys m. Q (k, lookup m k)]) = map snd ps \<and>
              sorted (map fst ps) \<and> distinct (map fst ps) \<and>
              set ps = {(k, r). (k, r) \<in> set m \<and> Q (k, r)}"
proof -
  let ?ks = "sort [k \<leftarrow> keys m. Q (k, lookup m k)]"
  let ?ps = "map (\<lambda>k. (k, lookup m k)) ?ks"
  have fst: "map fst ?ps = ?ks" by (simp add: comp_def)
  have snd: "map snd ?ps = map (lookup m) ?ks" by (simp add: comp_def)
  have "distinct ?ks" using d by simp
  moreover have "sorted ?ks" by simp
  moreover have "set ?ps = {(k, r). (k, r) \<in> set m \<and> Q (k, r)}"
  proof (rule set_eqI, clarify)
    fix k r
    show "(k, r) \<in> set ?ps \<longleftrightarrow> (k, r) \<in> {(k, r). (k, r) \<in> set m \<and> Q (k, r)}"
    proof
      assume "(k, r) \<in> set ?ps"
      then have "k \<in> set (keys m)" "Q (k, lookup m k)" "r = lookup m k" by auto
      then show "(k, r) \<in> {(k, r). (k, r) \<in> set m \<and> Q (k, r)}"
        using lookup_in_set [of k m] by simp
    next
      assume "(k, r) \<in> {(k, r). (k, r) \<in> set m \<and> Q (k, r)}"
      then have kr: "(k, r) \<in> set m" and q: "Q (k, r)" by auto
      from kr have "k \<in> set (keys m)" by (force simp: keys_def)
      moreover from kr d have "lookup m k = r" by (rule lookup_distinct [rotated])
      ultimately show "(k, r) \<in> set ?ps" using q by auto
    qed
  qed
  ultimately show ?thesis using fst snd by metis
qed

text \<open>
  C8: for every verdict set (a map, so its keys are distinct) the JSON document has
  three arrays. \<^verbatim>\<open>Explain\<close> holds exactly the verdicts stored under a key that starts
  with \<^verbatim>\<open>EXP\<close>, \<^verbatim>\<open>IndexRules\<close> exactly those under a key that starts with \<^verbatim>\<open>IDX\<close>, and
  \<^verbatim>\<open>HeuristicRules\<close> all the others except those under an \<^verbatim>\<open>ERR\<close> key with empty
  \<^verbatim>\<open>Content\<close>; each array is in ascending order of the keys, each verdict once. For the
  set of \<^verbatim>\<open>IDX.003\<close> and \<^verbatim>\<open>COL.001\<close>, \<^verbatim>\<open>IndexRules\<close> is the one entry \<^verbatim>\<open>IDX.003\<close> and
  \<^verbatim>\<open>HeuristicRules\<close> the one entry \<^verbatim>\<open>COL.001\<close>.
\<close>

theorem formatJSON_buckets:
  assumes "distinct (keys m)"
  shows "(\<exists>ps. Explain (formatJSON_sug env sql db m) = map snd ps \<and>
            sorted (map fst ps) \<and> distinct (map fst ps) \<and>
            set ps = {(k, r). (k, r) \<in> set m \<and> HasPrefix k ''EXP''}) \<and>
         (\<exists>ps. IndexRules (formatJSON_sug env sql db m) = map snd ps \<and>
            sorted (map fst ps) \<and> distinct (map fst ps) \<and>
            set ps = {(k, r). (k, r) \<in> set m \<and> HasPrefix k ''IDX''}) \<and>
         (\<exists>ps. HeuristicRules (formatJSON_sug env sql db m) = map snd ps \<and>
            sorted (map fst ps) \<and> distinct (map fst ps) \<and>
            set ps = {(k, r). (k, r) \<in> set m \<and> \<not> HasPrefix k ''EXP'' \<and> \<not> HasPrefix k ''IDX'' \<and>
                        \<not> (HasPrefix k ''ERR'' \<and> Content r = [])})"
proof -
  have e: "Explain (formatJSON_sug env sql db m) =
           map (lookup m) (sort [k \<leftarrow> keys m. (\<lambda>(k, r). HasPrefix k ''EXP'') (k, lookup m k)])"
    by (simp add: formatJSON_sug_def json_explain_keys_def Let_def)
  have i: "IndexRules (formatJSON_sug env sql db m) =
           map (lookup m) (sort [k \<leftarrow> keys m. (\<lambda>(k, r). HasPrefix k ''IDX'') (k, lookup m k)])"
    by (simp add: formatJSON_sug_def json_index_keys_def Let_def)
  have h: "HeuristicRules (formatJSON_sug env sql db m) =
           map (lookup m) (sort [k \<leftarrow> keys m.
             (\<lambda>(k, r). \<not> HasPrefix k ''EXP'' \<and> \<not> HasPrefix k ''IDX'' \<and>
                        \<not> (HasPrefix k ''ERR'' \<and> Content r = [])) (k, lookup m k)])"
    by (simp add: formatJSON_sug_def json_heuristic_keys_def Let_def)
  show ?thesis
    unfolding e i h
    using sorted_bucket [OF assms, of "\<lambda>(k, r). HasPrefix k ''EXP''"]
          sorted_bucket [OF assms, of "\<lambda>(k, r). HasPrefix k ''IDX''"]
          sorted_bucket [OF assms, of "\<lambda>(k, r). \<not> HasPrefix k ''EXP'' \<and> \<not> HasPrefix k ''IDX'' \<and>
                        \<not> (HasPrefix k ''ERR'' \<and> Content r = [])"]
    by simp
qed

theorem formatJSON_buckets_witness:
  "distinct (keys [verdict ''IDX.003'' ''L2'' ''add index'', verdict ''COL.001'' ''L1'' ''select star'']) \<and>
   IndexRules (formatJSON_sug plain_collaborators ''select 1'' ''db''
     [verdict ''IDX.003'' ''L2'' ''add index'', verdict ''COL.001'' ''L1'' ''select star'']) =
     [snd (verdict ''IDX.003'' ''L2'' ''add index'')] \<and>
   HeuristicRules (formatJSON_sug plain_collaborators ''select 1'' ''db''
     [verdict ''IDX.003'' ''L2'' ''add index'', verdict ''COL.001'' ''L1'' ''select star'']) =
     [snd (verdict ''COL.001'' ''L1'' ''select star'')]"
proof -
  let ?m = "[verdict ''IDX.003'' ''L2'' ''add index'', verdict ''COL.001'' ''L1'' ''select star'']"
  let ?J = "formatJSON_sug plain_collaborators ''select 1'' ''db'' ?m"
  have d: "distinct (keys ?m)"
    by (simp add: keys_def verdict_def)
  from formatJSON_buckets [OF d, of plain_collaborators "''select 1''" "''db''"]
  obtain ps qs where
    ps: "IndexRules ?J = map snd ps" "distinct (map fst ps)"
        "set ps = {(k, r). (k, r) \<in> set ?m \<and> HasPrefix k ''IDX''}" and
    qs: "HeuristicRules ?J = map snd qs" "distinct (map fst qs)"
        "set qs = {(k, r). (k, r) \<in> set ?m \<and> \<not> HasPrefix k ''EXP'' \<and> \<not> HasPrefix k ''IDX'' \<and>
                        \<not> (HasPrefix k ''ERR'' \<and> Content r = [])}"
    by blast
  have sp: "set ps = {verdict ''IDX.003'' ''L2'' ''add index''}"
    unfolding ps(3) by (auto simp: verdict_def HasPrefix_def)
  have dp: "distinct ps" using ps(2) by (simp add: distinct_map)
  have p: "ps = [verdict ''IDX.003'' ''L2'' ''add index'']"
    using dp sp by (rule singleton_list)
  have sq: "set qs = {verdict ''COL.001'' ''L1'' ''select star''}"
    unfolding qs(3) by (auto simp: verdict_def HasPrefix_def)
  have dq: "distinct qs" using qs(2) by (simp add: distinct_map)
  have q: "qs = [verdict ''COL.001'' ''L1'' ''select star'']"
    using dq sq by (rule singleton_list)
  have "IndexRules ?J = [snd (verdict ''IDX.003'' ''L2'' ''add index'')]"
    unfolding ps(1) p by simp
  moreover have "HeuristicRules ?J = [snd (verdict ''COL.001'' ''L1'' ''select star'')]"
    unfolding qs(1) q by simp
  ultimately show ?thesis using d by blast
qed

subsection \<open>The catalog\<close>

lemmas rule_defs = rule_OK_def rule_ALI_001_def rule_ALI_002_def rule_ALI_003_def rule_ALT_001_def rule_ALT_002_def rule_ALT_003_def rule_ALT_004_def rule_ARG_001_def rule_ARG_002_def rule_ARG_003_def rule_ARG_004_def rule_ARG_005_def rule_ARG_006_def rule_ARG_007_def rule_ARG_008_def rule_ARG_009_def rule_ARG_010_def rule_ARG_011_def rule_ARG_012_def rule_ARG_013_def rule_ARG_014_def rule_CLA_001_def rule_CLA_002_def rule_CLA_003_def rule_CLA_004_def rule_CLA_005_def rule_CLA_006_def rule_CLA_007_def rule_CLA_008_def rule_CLA_009_def rule_CLA_010_def rule_CLA_011_def rule_CLA_012_def rule_CLA_013_def rule_CLA_014_def rule_CLA_015_def rule_CLA_016_def rule_COL_001_def rule_COL_002_def rule_COL_003_def rule_COL_004_def rule_COL_005_def rule_COL_006_def rule_COL_007_def rule_COL_008_def rule_COL_009_def rule_COL_010_def rule_COL_011_def rule_COL_012_def rule_COL_013_def rule_COL_014_def rule_COL_015_def rule_COL_016_def rule_COL_017_def rule_COL_018_def rule_COL_019_def rule_DIS_001_def rule_DIS_002_def rule_DIS_003_def rule_FUN_001_def rule_FUN_002_def rule_FUN_003_def rule_FUN_004_def rule_FUN_005_def rule_FUN_006_def rule_FUN_007_def rule_FUN_008_def rule_FUN_009_def rule_GRP_001_def rule_JOI_001_def rule_JOI_002_def rule_JOI_003_def rule_JOI_004_def rule_JOI_005_def rule_JOI_006_def rule_JOI_007_def rule_JOI_008_def rule_KEY_001_def rule_KEY_002_def rule_KEY_003_def rule_KEY_004_def rule_KEY_005_def rule_KEY_006_def rule_KEY_007_def rule_KEY_008_def rule_KEY_009_def rule_KEY_010_def rule_KWR_001_def rule_KWR_002_def rule_KWR_003_def rule_KWR_004_def rule_KWR_005_def rule_LCK_001_def rule_LCK_002_def rule_LIT_001_def rule_LIT_002_def rule_LIT_003_def rule_LIT_004_def rule_RES_001_def rule_RES_002_def rule_RES_003_def rule_RES_004_def rule_RES_005_def rule_RES_006_def rule_RES_007_def rule_RES_008_def rule_RES_009_def rule_RES_010_def rule_RES_011_def rule_SEC_001_def rule_SEC_002_def rule_SEC_003_def rule_SEC_004_def rule_STA_001_def rule_STA_002_def rule_STA_003_def rule_STA_004_def rule_SUB_001_def rule_SUB_002_def rule_SUB_003_def rule_SUB_004_def rule_SUB_005_def rule_SUB_006_def rule_SUB_007_def rule_TBL_001_def rule_TBL_002_def rule_TBL_003_def rule_TBL_004_def rule_TBL_005_def rule_TBL_006_def rule_TBL_007_def rule_TBL_008_def

lemma catalog_entries:
  "list_all (\<lambda>(k, r). Item r = k \<and> Severity r \<in> set (map (\<lambda>d. [CHR ''L'', d]) ''0123456789'') \<and>
                       Func r \<noteq> None) (InitHeuristicRules cfg)"
  by (simp add: InitHeuristicRules_def rule_defs)

lemma catalog_distinct: "distinct (keys (InitHeuristicRules cfg))"
  by (simp add: InitHeuristicRules_def keys_def)


lemma OK_in_catalog: "(''OK'', rule_OK) \<in> set (InitHeuristicRules cfg)"
  by (simp add: InitHeuristicRules_def)

text \<open>
  C10: the catalog that \<open>InitHeuristicRules\<close> builds is consistent, whatever the
  configuration: its keys are distinct, every rule is stored under its own \<^verbatim>\<open>Item\<close>
  (so the \<^verbatim>\<open>Item\<close> values are distinct too), every \<^verbatim>\<open>Severity\<close> is the letter \<^verbatim>\<open>L\<close>
  followed by one decimal digit, and every \<^verbatim>\<open>Func\<close> is set.
\<close>

theorem InitHeuristicRules_consistent:
  "distinct (keys (InitHeuristicRules cfg)) \<and>
   distinct (map (Item \<circ> snd) (InitHeuristicRules cfg)) \<and>
   (\<forall>(k, r) \<in> set (InitHeuristicRules cfg).
      Item r = k \<and> (\<exists>d. is_digit d \<and> Severity r = [CHR ''L'', d]) \<and> Func r \<noteq> None)"
proof -
  have all: "\<forall>(k, r) \<in> set (InitHeuristicRules cfg).
      Item r = k \<and> Severity r \<in> set (map (\<lambda>d. [CHR ''L'', d]) ''0123456789'') \<and> Func r \<noteq> None"
    using catalog_entries [of cfg] by (simp add: list_all_iff)
  have digits: "is_digit d" if "d \<in> set ''0123456789''" for d
    using that by (auto simp: is_digit_def)
  have "map (Item \<circ> snd) (InitHeuristicRules cfg) = keys (InitHeuristicRules cfg)"
    unfolding keys_def using all by (intro map_cong) auto
  moreover have "\<exists>d. is_digit d \<and> Severity r = [CHR ''L'', d]"
    if "(k, r) \<in> set (InitHeuristicRules cfg)" for k r
  proof -
    from all that obtain d where "d \<in> set ''0123456789''" "Severity r = [CHR ''L'', d]"
      by fastforce
    with digits show ?thesis by blast
  qed
  ultimately show ?thesis
    using all catalog_distinct [of cfg] by auto
qed

theorem InitHeuristicRules_consistent_witness:
  "(''OK'', rule_OK) \<in> set (InitHeuristicRules default_Config) \<and>
   Item rule_OK = ''OK'' \<and> Func rule_OK \<noteq> None"
  using InitHeuristicRules_consistent [of default_Config] OK_in_catalog [of default_Config]
  by blast

subsection \<open>The sentinel OK\<close>









lemma header_suggest [simp]:
  "suggest (md_header env cfg sql format fp qid st) = suggest st"
  by (simp add: md_header_def)

lemma header_score [simp]:
  "score (md_header env cfg sql format fp qid st) = score st"
  by (simp add: md_header_def)










subsection \<open>Malformed severities\<close>

lemma ParseInt_syntax_zero: "snd (ParseInt s) = Some ErrSyntax \<Longrightarrow> fst (ParseInt s) = 0"
  by (auto simp: ParseInt_def Let_def split: list.splits prod.splits option.splits
        NumError.splits if_splits)

lemma Atoi_syntax_zero: "snd (Atoi s) = Some ErrSyntax \<Longrightarrow> fst (Atoi s) = 0"
  by (simp add: Atoi_def ParseInt_syntax_zero)

lemma Atoi_0: "Atoi ''0'' = (0, None)"
  by (simp add: Atoi_def ParseInt_def ParseUint_def is_digit_def digit_val_def maxUint64_def)

lemma json_minus_L0: "json_minus (r\<lparr>Severity := ''L0''\<rparr>) = 0"
  by (simp add: json_minus_def TrimLeft_def Atoi_0)

lemma json_minus_syntax:
  "snd (Atoi (TrimLeft (Severity r) ''L'')) = Some ErrSyntax \<Longrightarrow> json_minus r = 0"
  by (simp add: json_minus_def Atoi_syntax_zero)

lemma json_step_syntax:
  assumes "snd (Atoi (TrimLeft (Severity r) ''L'')) = Some ErrSyntax"
  shows "json_score_step (item, r) = json_score_step (item, r\<lparr>Severity := ''L0''\<rparr>)"
  using json_minus_syntax [OF assms] by (auto simp: json_score_step_def json_minus_L0 fun_eq_iff)

lemma wrap64_id: "- 9223372036854775808 \<le> x \<Longrightarrow> x < 9223372036854775808 \<Longrightarrow> wrap64 x = x"
  by (simp add: wrap64_def)

lemma md_deduct_error:
  "snd (Atoi (Trim (Severity r) ''L'')) \<noteq> None \<Longrightarrow> md_deduct r sc = 0"
  by (auto simp: md_deduct_def split: prod.splits option.splits)

text \<open>
  C3, as stated, says that a verdict whose severity does not parse deducts nothing
  and does not otherwise change the score, also in the markdown family. There the
  loops set the score to 0 when \<^verbatim>\<open>strconv.Atoi\<close> fails: the single verdict
  \<^verbatim>\<open>COL.001\<close> gives the score 100 with the severity \<^verbatim>\<open>L0\<close> and the score 0 with the
  severity \<^verbatim>\<open>Lx\<close>.
\<close>

theorem FormatSuggest_malformed_severity_zeroes_score:
  "snd (Atoi (Trim ''Lx'' ''L'')) = Some ErrSyntax \<and>
   score (format_switch plain_collaborators default_Config ''select 1'' [] ''markdown''
            (normalize_suggest default_Config (InitHeuristicRules default_Config)
               [verdict ''COL.001'' ''Lx'' ''c''])) = 0 \<and>
   score (format_switch plain_collaborators default_Config ''select 1'' [] ''markdown''
            (normalize_suggest default_Config (InitHeuristicRules default_Config)
               [verdict ''COL.001'' ''L0'' ''c''])) = 100"
  by (simp add: normalize_suggest_def ignoreOK_def IsIgnoreRule_def default_Config_def
        format_switch_def is_markdown_format_def
        format_markdown_def md_header_def md_mysql_def md_mysql_step_def md_explain_def
        md_section_def md_profiling_def md_trace_def md_index_def md_heuristic_def
        md_heuristic_step_def md_content_step_def md_index_step_def map_delete_def
        keys_def lookup_def zero_Rule_def HasPrefix_def Let_def verdict_def
        md_deduct_def Trim_def TrimLeft_def TrimRight_def
        Atoi_def ParseInt_def ParseUint_def is_digit_def digit_val_def maxUint64_def wrap64_def)

text \<open>
  C3, amended. In the score loop of \<open>formatJSON\<close> a verdict whose severity, with its
  leading \<^verbatim>\<open>L\<close>s trimmed, is a syntax error for \<^verbatim>\<open>strconv.Atoi\<close> is scored exactly as a
  verdict of severity \<^verbatim>\<open>L0\<close>: it deducts nothing and leaves a 64-bit score as it is,
  apart from the reset that a verdict of the namespace \<^verbatim>\<open>ERR\<close> with a content makes
  anyway. In the loops of the markdown family a verdict whose severity, with its \<^verbatim>\<open>L\<close>s
  trimmed on both sides, makes \<^verbatim>\<open>strconv.Atoi\<close> fail sets the score to 0; its lines are
  rendered all the same.
\<close>

theorem malformed_severity_scoring:
  "(snd (Atoi (TrimLeft (Severity r) ''L'')) = Some ErrSyntax \<longrightarrow>
      json_score (xs @ (item, r) # ys) = json_score (xs @ (item, r\<lparr>Severity := ''L0''\<rparr>) # ys) \<and>
      (- 9223372036854775808 \<le> sc \<and> sc < 9223372036854775808 \<longrightarrow>
         json_score_step (item, r) sc =
           (if HasPrefix item ''ERR'' \<and> Content r \<noteq> [] then 0 else sc))) \<and>
   (snd (Atoi (Trim (Severity (lookup m item)) ''L'')) \<noteq> None \<longrightarrow>
      snd (md_index_step env format m item (b, sc)) = 0 \<and>
      (item \<noteq> ''OK'' \<longrightarrow>
         md_heuristic_step env m item (b, sc) =
           (b @ [Sprintln2 ''##'' (Summary (lookup m item)),
                 Sprintln2 ''* **Item:** '' item,
                 Sprintln2 ''* **Severity:** '' (Severity (lookup m item)),
                 Sprintln2 ''* **Content:** '' (common_MarkdownEscape env (Content (lookup m item)))],
            0)))"
proof (intro conjI impI)
  assume a: "snd (Atoi (TrimLeft (Severity r) ''L'')) = Some ErrSyntax"
  show "json_score (xs @ (item, r) # ys) = json_score (xs @ (item, r\<lparr>Severity := ''L0''\<rparr>) # ys)"
    by (simp add: json_score_def json_step_syntax [OF a])
  assume "- 9223372036854775808 \<le> sc \<and> sc < 9223372036854775808"
  then show "json_score_step (item, r) sc =
           (if HasPrefix item ''ERR'' \<and> Content r \<noteq> [] then 0 else sc)"
    using json_minus_syntax [OF a] by (simp add: json_score_step_def wrap64_id)
next
  assume a: "snd (Atoi (Trim (Severity (lookup m item)) ''L'')) \<noteq> None"
  show "snd (md_index_step env format m item (b, sc)) = 0"
    by (simp add: md_index_step_def Let_def md_deduct_error [OF a])
  assume "item \<noteq> ''OK''"
  then show "md_heuristic_step env m item (b, sc) =
           (b @ [Sprintln2 ''##'' (Summary (lookup m item)),
                 Sprintln2 ''* **Item:** '' item,
                 Sprintln2 ''* **Severity:** '' (Severity (lookup m item)),
                 Sprintln2 ''* **Content:** '' (common_MarkdownEscape env (Content (lookup m item)))],
            0)"
    by (simp add: md_heuristic_step_def Let_def md_deduct_error [OF a])
qed


theorem malformed_severity_scoring_witness:
  "snd (Atoi (TrimLeft ''Lx'' ''L'')) = Some ErrSyntax \<and>
   json_score [verdict ''ARG.005'' ''L1'' ''c'', verdict ''COL.001'' ''Lx'' ''c''] = 95 \<and>
   json_score_step (verdict ''COL.001'' ''Lx'' ''c'') 95 = 95 \<and>
   snd (Atoi (Trim ''Lx'' ''L'')) \<noteq> None \<and>
   snd (md_index_step plain_collaborators ''markdown'' [verdict ''COL.001'' ''Lx'' ''c'']
          ''COL.001'' ([], 95)) = 0 \<and>
   snd (md_heuristic_step plain_collaborators [verdict ''COL.001'' ''Lx'' ''c'']
          ''COL.001'' ([], 95)) = 0"
proof -
  let ?r = "snd (verdict ''COL.001'' ''Lx'' ''c'')"
  let ?m = "[verdict ''COL.001'' ''Lx'' ''c'']"
  have v: "(''COL.001'', ?r) = verdict ''COL.001'' ''Lx'' ''c''"
    by (simp add: verdict_def)
  have l: "lookup ?m ''COL.001'' = ?r"
    by (simp add: lookup_def verdict_def)
  have x: "snd (Atoi (TrimLeft ''Lx'' ''L'')) = Some ErrSyntax"
    by (simp add: TrimLeft_def Atoi_def ParseInt_def ParseUint_def is_digit_def)
  have y: "snd (Atoi (Trim ''Lx'' ''L'')) \<noteq> None"
    by (simp add: Trim_def TrimLeft_def TrimRight_def Atoi_def ParseInt_def ParseUint_def
          is_digit_def)
  have h1: "snd (Atoi (TrimLeft (Severity ?r) ''L'')) = Some ErrSyntax"
    using x by (simp add: verdict_def)
  have h2: "- 9223372036854775808 \<le> (95::int) \<and> (95::int) < 9223372036854775808"
    by simp
  have h3: "snd (Atoi (Trim (Severity (lookup ?m ''COL.001'')) ''L'')) \<noteq> None"
    using y by (simp add: lookup_def verdict_def)
  have h4: "''COL.001'' \<noteq> ''OK''"
    by simp
  note t = malformed_severity_scoring [where r = ?r and item = "''COL.001''"
      and xs = "[verdict ''ARG.005'' ''L1'' ''c'']" and ys = "[]" and sc = 95 and m = ?m
      and env = plain_collaborators and format = "''markdown''" and b = "[]"]
  from t h1 have "json_score ([verdict ''ARG.005'' ''L1'' ''c''] @ (''COL.001'', ?r) # []) =
      json_score ([verdict ''ARG.005'' ''L1'' ''c''] @
                  (''COL.001'', ?r\<lparr>Severity := ''L0''\<rparr>) # [])"
    by blast
  also have "\<dots> = 95"
    by (simp add: json_score_def json_score_step_def json_minus_def verdict_def HasPrefix_def
          TrimLeft_def Atoi_def ParseInt_def ParseUint_def is_digit_def digit_val_def
          maxUint64_def wrap64_def)
  finally have c1: "json_score [verdict ''ARG.005'' ''L1'' ''c'', verdict ''COL.001'' ''Lx'' ''c''] = 95"
    by (simp add: v)
  from t h1 h2 have "json_score_step (''COL.001'', ?r) 95 =
      (if HasPrefix ''COL.001'' ''ERR'' \<and> Content ?r \<noteq> [] then 0 else 95)"
    by blast
  then have c2: "json_score_step (verdict ''COL.001'' ''Lx'' ''c'') 95 = 95"
    by (simp add: v HasPrefix_def)
  from t h3 have c3: "snd (md_index_step plain_collaborators ''markdown'' ?m ''COL.001'' ([], 95)) = 0"
    by blast
  from t h3 h4 have "md_heuristic_step plain_collaborators ?m ''COL.001'' ([], 95) =
      ([] @ [Sprintln2 ''##'' (Summary (lookup ?m ''COL.001'')),
             Sprintln2 ''* **Item:** '' ''COL.001'',
             Sprintln2 ''* **Severity:** '' (Severity (lookup ?m ''COL.001'')),
             Sprintln2 ''* **Content:** ''
               (common_MarkdownEscape plain_collaborators (Content (lookup ?m ''COL.001'')))],
       0)"
    by blast
  then have c4: "snd (md_heuristic_step plain_collaborators ?m ''COL.001'' ([], 95)) = 0"
    by simp
  from x c1 c2 y c3 c4 show ?thesis
    by simp
qed

end
